theory Spec2Isabelle
  imports Main "HOL-Library.AList"
begin

text \<open>
  The tunnel manager keeps a registry of tunnels (a map from a name to a record)
  that it saves to and loads from one file, finds and signals the processes of
  tunnels through \<open>ps\<close>, \<open>pgrep\<close> and \<open>kill\<close>, and offers the tools
  \<open>stop_tunnel\<close> and \<open>list_tunnels\<close> over both. This theory embeds the registry
  (tunnels.ts), the process functions (processes.ts) and the two handlers, with
  the file, the machine's process table and the log as explicit state, and
  settles what is said about them.
\<close>

section \<open>Strings as the program uses them\<close>

text \<open>
  Strings are byte lists. The patterns the program searches for are ASCII, so a
  search over bytes finds what the search over UTF-16 code units finds. White space
  is the ASCII part of the class \<open>\s\<close>; case is folded on ASCII letters only, as a
  regular expression with the flag \<open>i\<close> and without the flag \<open>u\<close> does for an ASCII
  pattern.
\<close>

definition nl :: string where
  "nl = [CHR 0x0A]"

definition dq :: string where
  "dq = [CHR 0x22]"

definition sq :: string where
  "sq = [CHR 0x27]"

definition is_space :: "char \<Rightarrow> bool" where
  "is_space c = (c \<in> set [CHR 0x20, CHR 0x09, CHR 0x0A, CHR 0x0B, CHR 0x0C, CHR 0x0D])"

definition to_lower :: "char \<Rightarrow> char" where
  "to_lower c =
     (case map_of (zip ''ABCDEFGHIJKLMNOPQRSTUVWXYZ'' ''abcdefghijklmnopqrstuvwxyz'') c of
        Some l \<Rightarrow> l
      | None \<Rightarrow> c)"

text \<open>\<open>xs.join(sep)\<close>\<close>

fun join :: "string \<Rightarrow> string list \<Rightarrow> string" where
  "join sep [] = []"
| "join sep [x] = x"
| "join sep (x # y # ys) = x @ sep @ join sep (y # ys)"

fun starts_with :: "string \<Rightarrow> string \<Rightarrow> bool" where
  "starts_with s [] = True"
| "starts_with [] (p # ps) = False"
| "starts_with (c # cs) (p # ps) = (c = p \<and> starts_with cs ps)"

text \<open>\<open>s.includes(pat)\<close>, and what \<open>grep\<close> selects for a pattern without metacharacters.\<close>

fun str_includes :: "string \<Rightarrow> string \<Rightarrow> bool" where
  "str_includes [] pat = (pat = [])"
| "str_includes (c # cs) pat = (starts_with (c # cs) pat \<or> str_includes cs pat)"

text \<open>A match of a literal pattern under the flag \<open>i\<close>; the pattern is given in lower case.\<close>

definition starts_with_ci :: "string \<Rightarrow> string \<Rightarrow> bool" where
  "starts_with_ci s pat = starts_with (map to_lower (take (length pat) s)) pat"

definition includes_ci :: "string \<Rightarrow> string \<Rightarrow> bool" where
  "includes_ci s pat = str_includes (map to_lower s) pat"

text \<open>\<open>line.trim().split(/\s+/)\<close>: the fields of a line between runs of white space.\<close>

fun split_ws_from :: "string \<Rightarrow> string \<Rightarrow> string list" where
  "split_ws_from [] cur = (if cur = [] then [] else [rev cur])"
| "split_ws_from (c # cs) cur =
     (if is_space c then (if cur = [] then split_ws_from cs [] else rev cur # split_ws_from cs [])
      else split_ws_from cs (c # cur))"

definition split_ws :: "string \<Rightarrow> string list" where
  "split_ws line = split_ws_from line []"

text \<open>
  \<open>parts[i]\<close> read where a string is expected: an index past the end gives
  \<open>undefined\<close>, which a template string prints as the text \<open>undefined\<close>. No row of
  \<open>ps\<close> carries that text as a process id.
\<close>

definition nth_js :: "string list \<Rightarrow> nat \<Rightarrow> string" where
  "nth_js parts i = (if i < length parts then parts ! i else ''undefined'')"

text \<open>Numbers printed by a template string or by \<open>toString()\<close>.\<close>

function string_of_nat :: "nat \<Rightarrow> string" where
  "string_of_nat n =
     (if n < 10 then [''0123456789'' ! n]
      else string_of_nat (n div 10) @ [''0123456789'' ! (n mod 10)])"
  by pat_completeness auto
termination
  by (relation "measure id") auto

declare string_of_nat.simps [simp del]

definition string_of_int :: "int \<Rightarrow> string" where
  "string_of_int i = (if i < 0 then ''-'' @ string_of_nat (nat (- i)) else string_of_nat (nat i))"

text \<open>
  \<open>parseInt(s)\<close>: leading white space, a sign, the prefix \<open>0x\<close> for radix 16, then
  the longest run of digits; \<open>None\<close> is \<open>NaN\<close>.
\<close>

definition digit_val :: "nat \<Rightarrow> char \<Rightarrow> nat option" where
  "digit_val radix c =
     (case map_of (zip ''0123456789abcdef'' [0 ..< 16]) (to_lower c) of
        Some d \<Rightarrow> if d < radix then Some d else None
      | None \<Rightarrow> None)"

fun digits_value :: "nat \<Rightarrow> nat \<Rightarrow> string \<Rightarrow> nat" where
  "digits_value radix acc [] = acc"
| "digits_value radix acc (c # cs) =
     (case digit_val radix c of
        Some d \<Rightarrow> digits_value radix (acc * radix + d) cs
      | None \<Rightarrow> acc)"

definition parse_digits :: "nat \<Rightarrow> string \<Rightarrow> nat option" where
  "parse_digits radix s =
     (case s of
        [] \<Rightarrow> None
      | c # cs \<Rightarrow> (if digit_val radix c = None then None else Some (digits_value radix 0 s)))"

definition parse_unsigned :: "string \<Rightarrow> nat option" where
  "parse_unsigned s =
     (if starts_with_ci s ''0x'' then parse_digits 16 (drop 2 s) else parse_digits 10 s)"

definition parseInt :: "string \<Rightarrow> int option" where
  "parseInt s =
     (case dropWhile is_space s of
        [] \<Rightarrow> None
      | c # cs \<Rightarrow>
          (if c = CHR ''-'' then map_option (\<lambda>n. - int n) (parse_unsigned cs)
           else if c = CHR ''+'' then map_option int (parse_unsigned cs)
           else map_option int (parse_unsigned (c # cs))))"

subsection \<open>The three regular expressions of \<open>list_tunnels\<close>\<close>

text \<open>The first position of a string at which a matcher succeeds, as \<open>String.match\<close> searches.\<close>

fun first_match :: "(string \<Rightarrow> 'a option) \<Rightarrow> string \<Rightarrow> 'a option" where
  "first_match m [] = m []"
| "first_match m (c # cs) = (case m (c # cs) of Some x \<Rightarrow> Some x | None \<Rightarrow> first_match m cs)"

text \<open>
  \<open>\s+\<close> at the head of a string: the rest after the run, when the run is not empty.
\<close>

definition skip_spaces1 :: "string \<Rightarrow> string option" where
  "skip_spaces1 s =
     (case s of
        [] \<Rightarrow> None
      | c # cs \<Rightarrow> if is_space c then Some (dropWhile is_space cs) else None)"

text \<open>
  \<open>(https?:\/\/[^\s]+)\<close> at the head of a string under the flag \<open>i\<close>: the scheme,
  then at least one character that is not white space; the group is the whole run
  up to the next white space.
\<close>

definition url_token :: "string \<Rightarrow> string option" where
  "url_token s =
     (if (starts_with_ci s ''https://'' \<and> takeWhile (\<lambda>c. \<not> is_space c) (drop 8 s) \<noteq> [])
         \<or> (starts_with_ci s ''http://'' \<and> takeWhile (\<lambda>c. \<not> is_space c) (drop 7 s) \<noteq> [])
      then Some (takeWhile (\<lambda>c. \<not> is_space c) s)
      else None)"

text \<open>\<open>/--url\s+(https?:\/\/[^\s]+)/i\<close>, group 1.\<close>

definition url_flag_at :: "string \<Rightarrow> string option" where
  "url_flag_at s =
     (if starts_with_ci s ''--url'' then
        (case skip_spaces1 (drop 5 s) of None \<Rightarrow> None | Some r \<Rightarrow> url_token r)
      else None)"

definition match_url_flag :: "string \<Rightarrow> string option" where
  "match_url_flag line = first_match url_flag_at line"

text \<open>\<open>/untun\s+tunnel\s+(https?:\/\/[^\s]+)/i\<close>, group 1.\<close>

definition untun_at :: "string \<Rightarrow> string option" where
  "untun_at s =
     (if starts_with_ci s ''untun'' then
        (case skip_spaces1 (drop 5 s) of
           None \<Rightarrow> None
         | Some r \<Rightarrow>
             (if starts_with_ci r ''tunnel'' then
                (case skip_spaces1 (drop 6 r) of None \<Rightarrow> None | Some r' \<Rightarrow> url_token r')
              else None))
      else None)"

definition match_untun :: "string \<Rightarrow> string option" where
  "match_untun line = first_match untun_at line"

text \<open>\<open>/(https?:\/\/[a-z0-9-]+\.trycloudflare\.com)/i\<close>, group 1.\<close>

definition is_label_char :: "char \<Rightarrow> bool" where
  "is_label_char c = (to_lower c \<in> set ''abcdefghijklmnopqrstuvwxyz0123456789-'')"

definition public_after_scheme :: "nat \<Rightarrow> string \<Rightarrow> string option" where
  "public_after_scheme n s =
     (let label = takeWhile is_label_char (drop n s);
          rest = dropWhile is_label_char (drop n s)
      in if label \<noteq> [] \<and> starts_with_ci rest ''.trycloudflare.com''
         then Some (take (n + length label + 18) s)
         else None)"

definition public_at :: "string \<Rightarrow> string option" where
  "public_at s =
     (if starts_with_ci s ''https://'' then public_after_scheme 8 s
      else if starts_with_ci s ''http://'' then public_after_scheme 7 s
      else None)"

definition match_public :: "string \<Rightarrow> string option" where
  "match_public line = first_match public_at line"

section \<open>The operating system, as the program observes it\<close>

text \<open>
  Every \<open>execSync\<close> is one observation of the machine. The machine is a parameter:
  what each command prints or how it exits, at the moment of the observation. The
  moment is a counter that every call of \<open>execSync\<close> advances, so the process table
  may differ from one observation to the next in any way. Rows of \<open>ps aux\<close> are
  lines without a line break.
\<close>

datatype signal = SIGTERM | SIGKILL

fun signal_name :: "signal \<Rightarrow> string" where
  "signal_name SIGTERM = ''TERM''"
| "signal_name SIGKILL = ''KILL''"

record os =
  ps_aux :: "nat \<Rightarrow> string list"
  ps_p :: "nat \<Rightarrow> string \<Rightarrow> bool"
  pgrep_P :: "nat \<Rightarrow> string \<Rightarrow> string list option"
  ps_command :: "nat \<Rightarrow> string \<Rightarrow> string option"
  kill_cmd :: "nat \<Rightarrow> signal \<Rightarrow> string \<Rightarrow> bool"
  grep :: "string \<Rightarrow> string \<Rightarrow> bool"

text \<open>
  \<open>ps_aux t\<close>: the rows \<open>ps aux\<close> prints. \<open>ps_p t pid\<close>: \<open>ps -p pid\<close> exits with
  status 0. \<open>pgrep_P t pid\<close>: the lines of \<open>pgrep -P pid\<close>, \<open>None\<close> when it exits
  with another status. \<open>ps_command t pid\<close>: what \<open>ps -p pid -o command=\<close> prints,
  \<open>None\<close> when it fails. \<open>kill_cmd t sg pid\<close>: \<open>kill -sg pid\<close> exits with status 0.
  \<open>grep pat row\<close>: \<open>grep "pat"\<close> selects the row, for the one pattern the program
  builds from data (the address of a tunnel); the fixed patterns have no
  metacharacter and are searched with \<open>str_includes\<close>.

  The state of the interaction: the counter, and every \<open>kill\<close> command issued so
  far with its target, its signal and whether the system accepted it.
\<close>

record ostate =
  clock :: nat
  sent :: "(string \<times> signal \<times> bool) list"

definition tick :: "ostate \<Rightarrow> ostate" where
  "tick s = s\<lparr>clock := Suc (clock s)\<rparr>"

definition issue_kill :: "os \<Rightarrow> string \<Rightarrow> signal \<Rightarrow> ostate \<Rightarrow> bool \<times> ostate" where
  "issue_kill sys target sg s =
     (let ok = kill_cmd sys (clock s) sg target
      in (ok, s\<lparr>clock := Suc (clock s), sent := sent s @ [(target, sg, ok)]\<rparr>))"

section \<open>processes.ts\<close>

text \<open>
  Line numbers in this section and in the section of the handlers are those of
  src/unnamed/part_001, which holds the handlers and then processes.ts; those in
  the section of tunnels.ts are of src/src/lib/tunnels.ts.

  The lines the program writes with \<open>log\<close> in tunnels.ts are part of the state
  below, and so is each line \<open>loadTunnels\<close> writes with \<open>debugLog\<close>, by whether
  writing it raises: whether \<open>loadTunnels\<close> raises to its caller depends on
  nothing else. The other diagnostic lines (\<open>log\<close> in processes.ts and in the
  handlers, \<open>debugLog\<close> outside \<open>loadTunnels\<close>) change nothing the program
  reads and are left out; writing them is taken to succeed.
\<close>

record ProcessInfo =
  proc_pid :: string
  command :: string
  user :: string
  line :: string

text \<open>\<open>awk '{print $2}'\<close> on one row: the second field, empty when there is none.\<close>

definition second_field :: "string \<Rightarrow> string" where
  "second_field r = (case split_ws r of a # b # rest \<Rightarrow> b | _ \<Rightarrow> [])"

text \<open>
  \<open>findPidsByPattern\<close>: the pipeline ends in \<open>awk\<close>, which never fails; the
  patterns the program passes have no metacharacter. Empty lines are dropped by
  \<open>filter(Boolean)\<close>.
\<close>

definition findPidsByPattern :: "os \<Rightarrow> string \<Rightarrow> ostate \<Rightarrow> string list \<times> ostate" where
  "findPidsByPattern sys pattern s =
     (let rows = filter (\<lambda>r. \<not> str_includes r ''grep'')
                   (filter (\<lambda>r. str_includes r pattern) (ps_aux sys (clock s)))
      in (filter (\<lambda>p. p \<noteq> []) (map second_field rows), tick s))"

definition killPid :: "os \<Rightarrow> string \<Rightarrow> signal \<Rightarrow> ostate \<Rightarrow> bool \<times> ostate" where
  "killPid sys pid sg s = issue_kill sys pid sg s"

definition parse_row :: "string \<Rightarrow> ProcessInfo" where
  "parse_row ln =
     (let parts = split_ws ln
      in \<lparr>proc_pid = nth_js parts 1, command = join '' '' (drop 10 parts),
          user = nth_js parts 0, line = ln\<rparr>)"

text \<open>
  \<open>getCloudflaredDetails\<close>: the pipeline ends in \<open>grep -v grep\<close>, which exits with
  status 1 when it selects nothing; \<open>execSync\<close> raises and the function returns \<open>[]\<close>.
\<close>

definition cloudflared_rows :: "os \<Rightarrow> nat \<Rightarrow> string list" where
  "cloudflared_rows sys t =
     filter (\<lambda>r. \<not> str_includes r ''grep'')
       (filter (\<lambda>r. str_includes r ''cloudflared'') (ps_aux sys t))"

definition getCloudflaredDetails :: "os \<Rightarrow> ostate \<Rightarrow> ProcessInfo list \<times> ostate" where
  "getCloudflaredDetails sys s = (map parse_row (cloudflared_rows sys (clock s)), tick s)"

text \<open>The filter of \<open>killTunnelProcesses\<close>, written twice in the source.\<close>

definition untun_managed :: "ProcessInfo \<Rightarrow> bool" where
  "untun_managed proc =
     ((str_includes (command proc) ''node-untun''
        \<or> str_includes (command proc) ''--url http''
        \<or> includes_ci (command proc) ''tunnel --url'')
      \<and> \<not> str_includes (command proc) ''--token'')"

fun kill_each ::
  "os \<Rightarrow> signal \<Rightarrow> (string \<Rightarrow> bool \<Rightarrow> string) \<Rightarrow> string list \<Rightarrow> string list \<times> ostate
     \<Rightarrow> string list \<times> ostate" where
  "kill_each sys sg fmt [] (results, s) = (results, s)"
| "kill_each sys sg fmt (p # ps) (results, s) =
     (case killPid sys p sg s of
        (killed, s') \<Rightarrow> kill_each sys sg fmt ps (results @ [fmt p killed], s'))"

definition outcome :: "bool \<Rightarrow> string" where
  "outcome killed = (if killed then ''Success'' else ''Failed'')"

text \<open>Lines 731 to 775: the tunnel binary's processes, \<open>TERM\<close>, a pause, then \<open>KILL\<close>.\<close>

definition binary_pass ::
  "os \<Rightarrow> ProcessInfo list \<Rightarrow> string list \<times> ostate \<Rightarrow> string list \<times> ostate" where
  "binary_pass sys procs rs =
     (case rs of (results, s) \<Rightarrow>
       (if procs \<noteq> [] then
          (let r1 = results
                 @ [''Found '' @ string_of_nat (length procs) @ '' untun-managed cloudflared processes'']
                 @ map (\<lambda>proc. ''Will terminate: PID '' @ proc_pid proc @ '' (''
                          @ take 50 (command proc) @ ''...)'') procs
           in case kill_each sys SIGTERM
                     (\<lambda>p killed. ''Kill TERM PID '' @ p @ '': '' @ outcome killed)
                     (map proc_pid procs) (r1, s) of
                (r2, s2) \<Rightarrow>
                  (case getCloudflaredDetails sys (tick s2) of
                     (remainingDetails, s3) \<Rightarrow>
                       (let remainingPids =
                              filter (\<lambda>pid. list_ex (\<lambda>p. proc_pid p = pid) remainingDetails)
                                (map proc_pid procs)
                        in if remainingPids \<noteq> [] then
                             kill_each sys SIGKILL
                               (\<lambda>p killed. ''Kill KILL PID '' @ p @ '': '' @ outcome killed)
                               remainingPids
                               (r2 @ [string_of_nat (length remainingPids)
                                       @ '' cloudflared processes still running after SIGTERM''], s3)
                           else (r2, s3))))
        else (results @ [''No untun-managed cloudflared processes found to kill''], s)))"

text \<open>
  Lines 777 to 806: the launcher's processes, found by the text \<open>untun tunnel\<close>.
  The pause (\<open>sleep 0.3\<close>) is taken to succeed; were it to fail, the loop that
  sends \<open>KILL\<close> would be skipped and fewer signals sent.
\<close>

definition launcher_pass :: "os \<Rightarrow> string list \<times> ostate \<Rightarrow> string list \<times> ostate" where
  "launcher_pass sys rs =
     (case rs of (results, s) \<Rightarrow>
       (case findPidsByPattern sys ''untun tunnel'' s of
          (untunPids, s1) \<Rightarrow>
            (if untunPids \<noteq> [] then
               (case kill_each sys SIGTERM
                       (\<lambda>p killed. ''Kill TERM untun PID '' @ p @ '': '' @ outcome killed)
                       untunPids
                       (results @ [''Found '' @ string_of_nat (length untunPids)
                                     @ '' untun tunnel processes''], s1) of
                  (r2, s2) \<Rightarrow>
                    (case findPidsByPattern sys ''untun tunnel'' (tick s2) of
                       (remainingUntunPids, s3) \<Rightarrow>
                         kill_each sys SIGKILL
                           (\<lambda>p killed. ''Kill KILL untun PID '' @ p @ '': '' @ outcome killed)
                           remainingUntunPids (r2, s3)))
             else (results @ [''No untun processes found''], s1))))"

text \<open>Lines 808 to 833: the final check, which reports and sends nothing.\<close>

definition final_check :: "os \<Rightarrow> string list \<times> ostate \<Rightarrow> string list \<times> ostate" where
  "final_check sys rs =
     (case rs of (results, s) \<Rightarrow>
       (case getCloudflaredDetails sys s of
          (details, s1) \<Rightarrow>
            (let finalUntunCloudflared = filter untun_managed details
             in if finalUntunCloudflared \<noteq> [] then
                  (results @ [''WARNING: '' @ string_of_nat (length finalUntunCloudflared)
                       @ '' untun cloudflared processes still running:'' @ nl
                       @ join nl (map (\<lambda>p. ''PID '' @ proc_pid p @ '': ''
                                            @ take 30 (command p) @ ''...'') finalUntunCloudflared)],
                   s1)
                else (results @ [''All untun cloudflared processes successfully terminated''], s1))))"

definition killTunnelProcesses :: "os \<Rightarrow> ostate \<Rightarrow> string \<times> ostate" where
  "killTunnelProcesses sys s =
     (case getCloudflaredDetails sys s of
        (cloudflaredDetails, s1) \<Rightarrow>
          (case final_check sys
                  (launcher_pass sys
                     (binary_pass sys (filter untun_managed cloudflaredDetails) ([], s1))) of
             (results, s') \<Rightarrow> (join nl results, s')))"

text \<open>
  \<open>closeSpecificTunnel\<close>. The inner function \<open>killProcess\<close> appends to \<open>results\<close>;
  the message of a failed \<open>execSync\<close> is the text Node gives it.
\<close>

definition check_mark :: string where
  "check_mark = [CHR 0xE2, CHR 0x9C, CHR 0x93]"

definition cross_mark :: string where
  "cross_mark = [CHR 0xE2, CHR 0x9C, CHR 0x97]"

definition killProcess ::
  "os \<Rightarrow> string \<Rightarrow> signal \<Rightarrow> string list \<times> ostate \<Rightarrow> bool \<times> string list \<times> ostate" where
  "killProcess sys targetPid sg rs =
     (case rs of (results, s) \<Rightarrow>
       (case issue_kill sys targetPid sg s of
          (ok, s') \<Rightarrow>
            (if ok then
               (True, results @ [check_mark @ '' Killed process '' @ targetPid @ '' with ''
                                   @ signal_name sg], s')
             else
               (False, results @ [cross_mark @ '' Failed to kill process '' @ targetPid
                                    @ '': Command failed: kill -'' @ signal_name sg @ '' ''
                                    @ targetPid], s'))))"

text \<open>Lines 863 to 877: the main process, signalled when \<open>ps -p\<close> finds it.\<close>

definition kill_main :: "os \<Rightarrow> string \<Rightarrow> string list \<times> ostate \<Rightarrow> string list \<times> ostate" where
  "kill_main sys p rs =
     (case rs of (results, s) \<Rightarrow>
       (if ps_p sys (clock s) p then snd (killProcess sys p SIGTERM (results, tick s))
        else (results @ [''Process '' @ p @ '' not found (might have exited already)''], tick s)))"

text \<open>Lines 902 to 915: one child of the main process.\<close>

definition kill_child :: "os \<Rightarrow> string \<Rightarrow> string list \<times> ostate \<Rightarrow> string list \<times> ostate" where
  "kill_child sys childPid rs =
     (case rs of (results, s) \<Rightarrow>
       (case ps_command sys (clock s) childPid of
          None \<Rightarrow> (results, tick s)
        | Some processCmd \<Rightarrow>
            (if str_includes processCmd ''cloudflared'' then
               snd (killProcess sys childPid SIGTERM
                      (results @ [''Found cloudflared child process: '' @ childPid], tick s))
             else (results, tick s))))"

text \<open>Lines 881 to 918: the children of the main process.\<close>

definition kill_children ::
  "os \<Rightarrow> string \<Rightarrow> string list \<times> ostate \<Rightarrow> string list \<times> ostate" where
  "kill_children sys p rs =
     (case rs of (results, s) \<Rightarrow>
       (case pgrep_P sys (clock s) p of
          None \<Rightarrow> (results @ [''No child processes found for PID '' @ p], tick s)
        | Some out \<Rightarrow>
            (let childPids = filter (\<lambda>l. l \<noteq> []) out
             in if childPids \<noteq> [] then
                  fold (kill_child sys) childPids
                    (results @ [''Found '' @ string_of_nat (length childPids)
                                  @ '' child processes for PID '' @ p], tick s)
                else (results, tick s))))"

text \<open>\<open>url.replace(/^https?:\/\//, "")\<close>\<close>

definition cleanUrl :: "string \<Rightarrow> string" where
  "cleanUrl u =
     (if starts_with u ''https://'' then drop 8 u
      else if starts_with u ''http://'' then drop 7 u
      else u)"

text \<open>Lines 924 to 972: no process id, the processes are found by the address.\<close>

definition matching_rows :: "os \<Rightarrow> string \<Rightarrow> nat \<Rightarrow> string list" where
  "matching_rows sys u t =
     filter (\<lambda>r. \<not> str_includes r ''grep'')
       (filter (grep sys (cleanUrl u))
          (filter (\<lambda>r. str_includes r ''cloudflared'') (ps_aux sys t)))"

definition kill_match ::
  "os \<Rightarrow> string \<Rightarrow> string list \<times> ostate \<Rightarrow> string list \<times> ostate" where
  "kill_match sys row rs =
     (case rs of (results, s) \<Rightarrow>
       snd (killProcess sys (nth_js (split_ws row) 1) SIGTERM
              (results @ [''Attempting to kill cloudflared process '' @ nth_js (split_ws row) 1
                            @ '' ('' @ take 30 (join '' '' (drop 10 (split_ws row))) @ ''...)''], s)))"

definition kill_by_url ::
  "os \<Rightarrow> string \<Rightarrow> string list \<times> ostate \<Rightarrow> string list \<times> ostate" where
  "kill_by_url sys u rs =
     (case rs of (results, s) \<Rightarrow>
       (let rows = matching_rows sys u (clock s)
        in if rows \<noteq> [] then
             fold (kill_match sys) rows
               (results @ [''Found '' @ string_of_nat (length rows)
                             @ '' cloudflared processes for URL '' @ cleanUrl u], tick s)
           else (results @ [''No matching cloudflared processes found''], tick s)))"

text \<open>
  A process id is a number or absent; \<open>None\<close> stands for \<open>undefined\<close>, \<open>null\<close> and
  \<open>NaN\<close>, which the program never tells apart: each is falsy, and so is 0.
\<close>

definition closeSpecificTunnel :: "os \<Rightarrow> string \<Rightarrow> int option \<Rightarrow> ostate \<Rightarrow> string \<times> ostate" where
  "closeSpecificTunnel sys u pid s =
     (case (if pid = Some 0 then None else pid) of
        Some p \<Rightarrow>
          (case kill_children sys (string_of_int p) (kill_main sys (string_of_int p) ([], s)) of
             (results, s') \<Rightarrow> (join nl results, s'))
      | None \<Rightarrow>
          (case kill_by_url sys u
                  ([''Warning: No PID provided, trying to match by URL which may affect other tunnels''],
                   s) of
             (results, s') \<Rightarrow> (join nl results, s')))"

section \<open>tunnels.ts\<close>

text \<open>
  The closure stored under \<open>tunnel.close\<close>, by the variables it captures: the one
  \<open>start_tunnel\<close> builds (address, name), the one \<open>loadTunnels\<close> builds (name, address,
  process id, remote or not) and the one \<open>list_tunnels\<close> builds (address, process id
  as text).
\<close>

datatype handle =
  StartedHandle string string
| LoadedHandle string string "int option" bool
| DetectedHandle string string

text \<open>
  \<open>TunnelInfo\<close>. A \<open>Date\<close> is its time value in milliseconds, \<open>None\<close> for an invalid
  date. The optional flags are \<open>False\<close> when absent, which is how the program reads them.
\<close>

record TunnelInfo =
  url :: string
  publicUrl :: "string option"
  created :: "int option"
  pid :: "int option"
  hostId :: string
  isRemote :: bool
  isDetected :: bool
  tunnel :: handle

text \<open>
  \<open>activeTunnels\<close> is a \<open>Map\<close>: keys in insertion order, each once. \<open>set\<close> on a key
  that is present replaces the value where it stands.
\<close>

type_synonym registry = "(string \<times> TunnelInfo) list"

definition Map_has :: "registry \<Rightarrow> string \<Rightarrow> bool" where
  "Map_has m k = (map_of m k \<noteq> None)"

definition Map_get :: "registry \<Rightarrow> string \<Rightarrow> TunnelInfo option" where
  "Map_get m k = map_of m k"

definition Map_set :: "registry \<Rightarrow> string \<Rightarrow> TunnelInfo \<Rightarrow> registry" where
  "Map_set m k v = AList.update k v m"

definition Map_delete :: "registry \<Rightarrow> string \<Rightarrow> registry" where
  "Map_delete m k = AList.delete k m"

text \<open>
  The storage file, by what reading it gives: no file; a file that cannot be read
  or parsed (with the message of the exception); a value that is not an array,
  on which \<open>forEach\<close> raises (with the message); or an array. An element of the
  array is \<open>null\<close>, whose properties cannot be read, or an object with the fields
  \<open>saveTunnels\<close> writes. A process id that is absent or \<open>null\<close> is \<open>None\<close>.
\<close>

record persisted =
  j_name :: string
  j_url :: string
  j_publicUrl :: "string option"
  j_created :: string
  j_pid :: "int option"
  j_hostId :: string

datatype element = NullElement | Object persisted

datatype storage_file =
  NoFile
| Unreadable string
| Malformed string
| NotArray string
| Array "element list"

text \<open>
  What the program reads from its surroundings: the host name, the path of the
  storage file, the clock, whether \<open>writeFileSync\<close> raises (and with which message),
  whether \<open>appendFileSync\<close> raises on the debug log (and with which message), for
  each line a call of \<open>loadTunnels\<close> tries to write there, counted from 0, and
  the two sides of the runtime's date format. \<open>toISOString\<close> is applied to
  valid dates only (on an invalid one the runtime raises \<open>RangeError\<close>, which the
  model does itself); \<open>newDate\<close> is \<open>new Date(text)\<close>.
\<close>

record env =
  hostname :: string
  tunnelStoragePath :: string
  now :: int
  writeFileSync_error :: "string option"
  debugLog_error :: "nat \<Rightarrow> string option"
  toISOString :: "int \<Rightarrow> string"
  newDate :: "string \<Rightarrow> int option"

record world =
  activeTunnels :: registry
  storage :: storage_file
  logs :: "string list"
  osst :: ostate

definition log :: "string \<Rightarrow> world \<Rightarrow> world" where
  "log msg w = w\<lparr>logs := logs w @ [msg]\<rparr>"

text \<open>
  Lines 16 to 28: the array \<open>saveTunnels\<close> builds, or the exception of
  \<open>toISOString\<close> on an invalid date. The file is held by what parsing it
  gives, so writing the JSON text of the array stores the array. (In that text a
  process id that is \<open>undefined\<close> is left out and one that is \<open>NaN\<close> is written
  \<open>null\<close>: both read back as absent.)
\<close>

fun tunnelsData :: "env \<Rightarrow> registry \<Rightarrow> string + persisted list" where
  "tunnelsData e [] = Inr []"
| "tunnelsData e ((name, info) # rest) =
     (case created info of
        None \<Rightarrow> Inl ''Invalid time value''
      | Some t \<Rightarrow>
          (case tunnelsData e rest of
             Inl msg \<Rightarrow> Inl msg
           | Inr ds \<Rightarrow>
               Inr (\<lparr>j_name = name, j_url = url info, j_publicUrl = publicUrl info,
                     j_created = toISOString e t, j_pid = pid info,
                     j_hostId = hostname e\<rparr> # ds)))"

definition saveTunnels :: "env \<Rightarrow> world \<Rightarrow> world" where
  "saveTunnels e w =
     (case tunnelsData e (activeTunnels w) of
        Inl msg \<Rightarrow> log (''Error saving tunnels to file: '' @ msg) w
      | Inr ds \<Rightarrow>
          (case writeFileSync_error e of
             Some msg \<Rightarrow> log (''Error saving tunnels to file: '' @ msg) w
           | None \<Rightarrow>
               log (''Saved '' @ string_of_nat (length ds) @ '' tunnel(s) to ''
                      @ tunnelStoragePath e)
                 (w\<lparr>storage := Array (map Object ds)\<rparr>)))"

text \<open>Lines 58 to 85: the record \<open>loadTunnels\<close> builds for one element.\<close>

definition loaded :: "env \<Rightarrow> persisted \<Rightarrow> TunnelInfo" where
  "loaded e d =
     \<lparr>url = j_url d, publicUrl = j_publicUrl d, created = newDate e (j_created d),
      pid = j_pid d, hostId = j_hostId d, isRemote = (j_hostId d \<noteq> hostname e),
      isDetected = False,
      tunnel = LoadedHandle (j_name d) (j_url d) (j_pid d) (j_hostId d \<noteq> hostname e)\<rparr>"

text \<open>
  Lines 53 to 86: the loop. It stops at an element whose property cannot be read;
  what it has set before stays set.
\<close>

fun load_each :: "env \<Rightarrow> element list \<Rightarrow> registry \<Rightarrow> registry \<times> string option" where
  "load_each e [] m = (m, None)"
| "load_each e (NullElement # rest) m =
     (m, Some (''Cannot read properties of null (reading '' @ sq @ ''name'' @ sq @ '')''))"
| "load_each e (Object d # rest) m =
     (if Map_has m (j_name d) then load_each e rest m
      else load_each e rest (Map_set m (j_name d) (loaded e d)))"

text \<open>
  A function that may raise to its caller: it returns and leaves a world, or it
  raises an exception with a message and leaves a world (what it had changed
  before stays changed).
\<close>

datatype outcome = Returned world | Raised string world

fun after :: "outcome \<Rightarrow> world" where
  "after (Returned w) = w"
| "after (Raised msg w) = w"

fun returns :: "outcome \<Rightarrow> bool" where
  "returns (Returned w) = True"
| "returns (Raised msg w) = False"

text \<open>
  logger.ts, \<open>debugLog\<close>: one \<open>fs.appendFileSync\<close> with no guard. The contents of
  the debug log are not part of the state; \<open>k\<close> counts the lines this call of
  \<open>loadTunnels\<close> has tried to write.
\<close>

definition debugLog :: "env \<Rightarrow> nat \<Rightarrow> world \<Rightarrow> outcome" where
  "debugLog e k w = (case debugLog_error e k of None \<Rightarrow> Returned w | Some msg \<Rightarrow> Raised msg w)"

text \<open>
  Lines 89 to 93: the \<open>catch\<close> block of \<open>loadTunnels\<close>. Its \<open>debugLog\<close> stands in no
  \<open>try\<close>: when it raises, \<open>loadTunnels\<close> raises.
\<close>

definition load_failed :: "env \<Rightarrow> nat \<Rightarrow> string \<Rightarrow> world \<Rightarrow> outcome" where
  "load_failed e k msg w = debugLog e k (log (''Error loading tunnels from file: '' @ msg) w)"

text \<open>
  Lines 43 to 94. With no file the function logs and returns. Every exception of
  the \<open>try\<close> block goes to the \<open>catch\<close> block, also the one \<open>debugLog\<close> raises at line
  88, after the loop has run and the count has been logged.
\<close>

definition loadTunnels :: "env \<Rightarrow> world \<Rightarrow> outcome" where
  "loadTunnels e w =
     (case storage w of
        NoFile \<Rightarrow> Returned (log (''No tunnel storage file found at '' @ tunnelStoragePath e) w)
      | Unreadable msg \<Rightarrow> load_failed e 0 msg w
      | Malformed msg \<Rightarrow> load_failed e 0 msg w
      | NotArray msg \<Rightarrow> load_failed e 0 msg w
      | Array elems \<Rightarrow>
          (case load_each e elems (activeTunnels w) of
             (m, None) \<Rightarrow>
               (case debugLog e 0
                       (log (''Loaded '' @ string_of_nat (length elems)
                               @ '' tunnel(s) from storage file'')
                          (w\<lparr>activeTunnels := m\<rparr>)) of
                  Returned w1 \<Rightarrow> Returned w1
                | Raised dmsg w1 \<Rightarrow> load_failed e 1 dmsg w1)
           | (m, Some msg) \<Rightarrow> load_failed e 0 msg (w\<lparr>activeTunnels := m\<rparr>)))"

section \<open>The tool handlers\<close>

subsection \<open>\<open>stop_tunnel\<close>\<close>

text \<open>
  The argument \<open>name\<close> is a string or absent. The handler tests \<open>if (name)\<close>: the
  empty string is falsy and takes the branch of the absent name. The handler's
  reply is the text of its one content item.
\<close>

definition not_found_reply :: "string \<Rightarrow> string" where
  "not_found_reply name = ''No active tunnel found with name '' @ dq @ name @ dq @ ''.''"

definition remote_reply :: "string \<Rightarrow> string \<Rightarrow> string" where
  "remote_reply name host =
     ''Tunnel '' @ dq @ name @ dq @ '' is running on a different host ('' @ host
       @ '') and cannot be stopped from this instance. Please stop it from the originating host.''"

definition no_local_reply :: string where
  "no_local_reply = ''No local tunnels to stop. Remote tunnels are not affected.''"

text \<open>Lines 263 to 326: a name is given.\<close>

definition stop_named :: "env \<Rightarrow> os \<Rightarrow> string \<Rightarrow> world \<Rightarrow> string \<times> world" where
  "stop_named e sys name w =
     (case Map_get (activeTunnels w) name of
        None \<Rightarrow> (not_found_reply name, w)
      | Some tunnelInfo \<Rightarrow>
          (if isRemote tunnelInfo then (remote_reply name (hostId tunnelInfo), w)
           else
             (case (if url tunnelInfo \<noteq> []
                    then closeSpecificTunnel sys (url tunnelInfo) (pid tunnelInfo) (osst w)
                    else ([], osst w)) of
                (killResultsText, s') \<Rightarrow>
                  (''Tunnel '' @ dq @ name @ dq @ '' stopped.'' @ nl @ nl @ ''Details:'' @ nl
                     @ killResultsText,
                   saveTunnels e
                     (w\<lparr>osst := s', activeTunnels := Map_delete (activeTunnels w) name\<rparr>)))))"

text \<open>Lines 328 to 372: no name is given.\<close>

definition localTunnels :: "registry \<Rightarrow> registry" where
  "localTunnels m = filter (\<lambda>entry. \<not> isRemote (snd entry)) m"

definition stop_all :: "env \<Rightarrow> os \<Rightarrow> world \<Rightarrow> string \<times> world" where
  "stop_all e sys w =
     (case killTunnelProcesses sys (osst w) of
        (results, s') \<Rightarrow>
          (let localCount = length (localTunnels (activeTunnels w))
           in if localCount = 0 then (no_local_reply, w\<lparr>osst := s'\<rparr>)
              else
                (''Stopped '' @ string_of_nat localCount
                   @ '' local tunnels. Remote tunnels were not affected.'' @ nl @ nl
                   @ ''Details:'' @ nl @ results,
                 saveTunnels e
                   (w\<lparr>osst := s',
                      activeTunnels :=
                        fold (\<lambda>entry m. Map_delete m (fst entry))
                          (localTunnels (activeTunnels w)) (activeTunnels w)\<rparr>))))"

definition stop_tunnel :: "env \<Rightarrow> os \<Rightarrow> string option \<Rightarrow> world \<Rightarrow> string \<times> world" where
  "stop_tunnel e sys name w =
     (case name of
        None \<Rightarrow> stop_all e sys w
      | Some n \<Rightarrow> if n \<noteq> [] then stop_named e sys n w else stop_all e sys w)"

subsection \<open>\<open>list_tunnels\<close>, up to the save that ends the reconciliation\<close>

record detected =
  d_name :: string
  d_url :: string
  d_publicUrl :: "string option"
  d_pid :: string
  d_hostId :: string
  d_created :: "int option"
  d_isDetected :: bool

text \<open>Lines 454 to 483: the rows of the tunnel binary.\<close>

fun scan_cloudflared :: "env \<Rightarrow> string list \<Rightarrow> detected list \<Rightarrow> detected list" where
  "scan_cloudflared e [] detectedTunnels = detectedTunnels"
| "scan_cloudflared e (ln # lns) detectedTunnels =
     (case match_url_flag ln of
        None \<Rightarrow> scan_cloudflared e lns detectedTunnels
      | Some localUrl \<Rightarrow>
          scan_cloudflared e lns
            (detectedTunnels @
               [\<lparr>d_name = ''auto-detected-'' @ string_of_nat (length detectedTunnels + 1),
                 d_url = localUrl, d_publicUrl = match_public ln,
                 d_pid = nth_js (split_ws ln) 1, d_hostId = hostname e,
                 d_created = Some (now e), d_isDetected = True\<rparr>]))"

text \<open>Lines 486 to 509: the rows of the launcher.\<close>

fun scan_untun :: "env \<Rightarrow> string list \<Rightarrow> detected list \<Rightarrow> detected list" where
  "scan_untun e [] detectedTunnels = detectedTunnels"
| "scan_untun e (ln # lns) detectedTunnels =
     (case match_untun ln of
        None \<Rightarrow> scan_untun e lns detectedTunnels
      | Some localUrl \<Rightarrow>
          (if list_ex (\<lambda>t. d_url t = localUrl) detectedTunnels
           then scan_untun e lns detectedTunnels
           else
             scan_untun e lns
               (detectedTunnels @
                  [\<lparr>d_name = ''auto-detected-'' @ string_of_nat (length detectedTunnels + 1),
                    d_url = localUrl, d_publicUrl = None,
                    d_pid = nth_js (split_ws ln) 1, d_hostId = hostname e,
                    d_created = Some (now e), d_isDetected = True\<rparr>])))"

text \<open>Lines 521 to 541: the record stored for a detected tunnel.\<close>

definition detected_info :: "detected \<Rightarrow> TunnelInfo" where
  "detected_info t =
     \<lparr>url = d_url t, publicUrl = d_publicUrl t, created = d_created t,
      pid = parseInt (d_pid t), hostId = d_hostId t, isRemote = False,
      isDetected = d_isDetected t, tunnel = DetectedHandle (d_url t) (d_pid t)\<rparr>"

text \<open>
  Lines 512 to 546: each detected tunnel is stored under its generated name
  unless a record has its address; a record that has it and no public address
  takes the detected one.
\<close>

fun absorb :: "detected list \<Rightarrow> registry \<Rightarrow> registry" where
  "absorb [] m = m"
| "absorb (t # ts) m =
     (case find (\<lambda>entry. url (snd entry) = d_url t) m of
        None \<Rightarrow> absorb ts (Map_set m (d_name t) (detected_info t))
      | Some (k, existingTunnel) \<Rightarrow>
          (if publicUrl existingTunnel = None \<and> d_publicUrl t \<noteq> None \<and> d_publicUrl t \<noteq> Some []
           then absorb ts (Map_set m k (existingTunnel\<lparr>publicUrl := d_publicUrl t\<rparr>))
           else absorb ts m))"

definition untun_rows :: "os \<Rightarrow> nat \<Rightarrow> string list" where
  "untun_rows sys t =
     filter (\<lambda>r. \<not> str_includes r ''grep'')
       (filter (\<lambda>r. str_includes r ''untun tunnel'') (ps_aux sys t))"

definition detect :: "env \<Rightarrow> os \<Rightarrow> ostate \<Rightarrow> detected list \<times> ostate" where
  "detect e sys s =
     (scan_untun e (untun_rows sys (Suc (clock s)))
        (scan_cloudflared e (cloudflared_rows sys (clock s)) []),
      tick (tick s))"

text \<open>
  Lines 404 to 557. The call of \<open>loadTunnels\<close> at line 406 stands in no \<open>try\<close>:
  when it raises, the handler raises and has done nothing else. The handler's
  report, which follows and changes nothing in the registry or the file, is not
  part of the model.
\<close>

definition list_tunnels :: "env \<Rightarrow> os \<Rightarrow> world \<Rightarrow> detected list \<times> outcome" where
  "list_tunnels e sys w =
     (case loadTunnels e w of
        Raised msg w0 \<Rightarrow> ([], Raised msg w0)
      | Returned w0 \<Rightarrow>
          (case detect e sys (osst w0) of
             (detectedTunnels, s') \<Rightarrow>
               (if cloudflared_rows sys (clock (osst w0)) = []
                   \<and> untun_rows sys (Suc (clock (osst w0))) = []
                then ([], Returned (w0\<lparr>osst := s'\<rparr>))
                else
                  (detectedTunnels,
                   Returned
                     (saveTunnels e
                        (w0\<lparr>osst := s',
                            activeTunnels := absorb detectedTunnels (activeTunnels w0)\<rparr>))))))"

section \<open>Auxiliary notions and sample inputs\<close>


text \<open>
  A machine for the examples. Its debug log can be written, and its date format
  is the runtime's on the two dates the examples use: the epoch, and
  1700000000000 ms after it; any other text is no date.
\<close>

definition iso_epoch :: string where
  "iso_epoch = ''1970-01-01T00:00:00.000Z''"

definition iso_2023 :: string where
  "iso_2023 = ''2023-11-14T22:13:20.000Z''"

definition sample_env :: "string \<Rightarrow> env" where
  "sample_env host =
     \<lparr>hostname = host, tunnelStoragePath = ''/tmp/untun-tunnels.json'',
      now = 1700000000000, writeFileSync_error = None, debugLog_error = (\<lambda>k. None),
      toISOString = (\<lambda>t. if t = 0 then iso_epoch else if t = 1700000000000 then iso_2023 else []),
      newDate = (\<lambda>s. if s = iso_epoch then Some 0
                      else if s = iso_2023 then Some 1700000000000 else None)\<rparr>"

definition web_info :: TunnelInfo where
  "web_info =
     \<lparr>url = ''http://localhost:3000'', publicUrl = None, created = Some 0, pid = Some 4242,
      hostId = ''thishost'', isRemote = False, isDetected = False,
      tunnel = StartedHandle ''http://localhost:3000'' ''web''\<rparr>"

definition api_info :: TunnelInfo where
  "api_info =
     \<lparr>url = ''http://localhost:8080'', publicUrl = Some ''https://abc123.trycloudflare.com'',
      created = Some 1700000000000, pid = None,
      hostId = ''otherhost'', isRemote = True, isDetected = False,
      tunnel = LoadedHandle ''api'' ''http://localhost:8080'' None True\<rparr>"

definition idle :: ostate where
  "idle = \<lparr>clock = 0, sent = []\<rparr>"

definition sample_world :: world where
  "sample_world =
     \<lparr>activeTunnels = [(''web'', web_info), (''api'', api_info)], storage = NoFile,
      logs = [], osst = idle\<rparr>"


text \<open>
  A storage file whose one object has a creation date that is no date, the record
  \<open>loadTunnels\<close> builds from it, and the registry after \<open>web\<close> has been set
  next to that record.
\<close>

definition garbled_file :: storage_file where
  "garbled_file =
     Array [Object \<lparr>j_name = ''old'', j_url = ''http://localhost:7000'', j_publicUrl = None,
                     j_created = ''yesterday'', j_pid = Some 99, j_hostId = ''thishost''\<rparr>]"

definition undated_info :: TunnelInfo where
  "undated_info =
     \<lparr>url = ''http://localhost:7000'', publicUrl = None, created = None, pid = Some 99,
      hostId = ''thishost'', isRemote = False, isDetected = False,
      tunnel = LoadedHandle ''old'' ''http://localhost:7000'' (Some 99) False\<rparr>"

definition undated_world :: world where
  "undated_world =
     \<lparr>activeTunnels = [(''old'', undated_info), (''web'', web_info)], storage = garbled_file,
      logs = [], osst = idle\<rparr>"

text \<open>A machine whose debug log cannot be written.\<close>

definition full_disk_env :: env where
  "full_disk_env =
     (sample_env ''thishost'')
       \<lparr>debugLog_error := (\<lambda>k. Some ''ENOSPC: no space left on device, write'')\<rparr>"


text \<open>
  A machine for the examples: its process table is the same at every observation
  (its processes outlive every signal), no process has a child, a \<open>kill\<close> is
  accepted when its target is in the table, and \<open>grep\<close> searches for the text.
\<close>

definition steady_os :: "string list \<Rightarrow> os" where
  "steady_os rows =
     \<lparr>ps_aux = (\<lambda>t. rows),
      ps_p = (\<lambda>t p. p \<in> set (map second_field rows)),
      pgrep_P = (\<lambda>t p. None),
      ps_command = (\<lambda>t p. map_option (\<lambda>r. join '' '' (drop 10 (split_ws r)))
                              (find (\<lambda>r. second_field r = p) rows)),
      kill_cmd = (\<lambda>t sg p. p \<in> set (map second_field rows)),
      grep = (\<lambda>pat row. str_includes row pat)\<rparr>"

text \<open>Rows of \<open>ps aux\<close>: a tunnel binary started by the launcher, and its launcher.\<close>

definition binary_row :: string where
  "binary_row = ''dev 4243 0.0 0.1 100 200 ? S 10:00 0:00 /tmp/node-untun/cloudflared tunnel --url http://localhost:3000''"

definition launcher_row :: string where
  "launcher_row = ''dev 4242 0.0 0.1 100 200 ? S 10:00 0:00 node /usr/bin/untun tunnel http://localhost:3000''"



text \<open>
  A shell whose command line starts the launcher and a tunnel binary that
  authenticates with a token.
\<close>

definition token_row :: string where
  "token_row = ''dev 777 0.0 0.1 100 200 ? S 10:00 0:00 sh -c npx untun tunnel http://localhost:3000 & cloudflared tunnel --url http://localhost:8080 --token abc''"

text \<open>Tunnel binaries for two addresses, as two invocations of \<open>list_tunnels\<close> find them.\<close>

definition row_4000 :: string where
  "row_4000 = ''dev 501 0.0 0.1 100 200 ? S 10:00 0:00 cloudflared tunnel --url http://localhost:4000''"

definition row_5000 :: string where
  "row_5000 = ''dev 502 0.0 0.1 100 200 ? S 10:05 0:00 cloudflared tunnel --url http://localhost:5000''"

definition empty_world :: world where
  "empty_world = \<lparr>activeTunnels = [], storage = NoFile, logs = [], osst = idle\<rparr>"

text \<open>A registry whose one record is remote and has the empty name.\<close>

definition unnamed_remote :: world where
  "unnamed_remote =
     \<lparr>activeTunnels = [([], api_info)], storage = NoFile, logs = [], osst = idle\<rparr>"

text \<open>A registry whose one record is remote.\<close>

definition remote_only :: world where
  "remote_only =
     \<lparr>activeTunnels = [(''api'', api_info)], storage = NoFile, logs = [], osst = idle\<rparr>"

section \<open>The registry keeps each key once\<close>

text \<open>
  A \<open>Map\<close> holds a key once. The list that stands for \<open>activeTunnels\<close> keeps that
  property through every operation of the program: \<open>set\<close>, \<open>delete\<close>, the loop of
  \<open>loadTunnels\<close>, the reconciliation of \<open>list_tunnels\<close>, and both handlers.
\<close>

lemma Map_set_distinct:
  "distinct (map fst m) \<Longrightarrow> distinct (map fst (Map_set m k v))"
  by (simp add: Map_set_def distinct_update)

lemma Map_delete_distinct:
  "distinct (map fst m) \<Longrightarrow> distinct (map fst (Map_delete m k))"
  by (simp add: Map_delete_def distinct_delete)

lemma load_each_distinct:
  "distinct (map fst m) \<Longrightarrow> distinct (map fst (fst (load_each e elems m)))"
  by (induction e elems m rule: load_each.induct) (simp_all add: Map_set_distinct)

lemma absorb_distinct:
  "distinct (map fst m) \<Longrightarrow> distinct (map fst (absorb ts m))"
proof (induction ts arbitrary: m)
  case Nil
  then show ?case by simp
next
  case (Cons t ts)
  show ?case
  proof (cases "find (\<lambda>entry. url (snd entry) = d_url t) m")
    case None
    with Cons show ?thesis by (simp add: Map_set_distinct)
  next
    case (Some hit)
    with Cons show ?thesis by (cases hit) (simp add: Map_set_distinct)
  qed
qed

lemma fold_delete_distinct:
  "distinct (map fst m) \<Longrightarrow>
     distinct (map fst (fold (\<lambda>entry m. Map_delete m (fst entry)) es m))"
  by (induction es arbitrary: m) (simp_all add: Map_delete_distinct)

lemma saveTunnels_registry [simp]: "activeTunnels (saveTunnels e w) = activeTunnels w"
  by (simp add: saveTunnels_def log_def split: sum.splits option.splits)

lemma after_debugLog [simp]: "after (debugLog e k w) = w"
  by (simp add: debugLog_def split: option.splits)

lemma after_load_failed [simp]:
  "after (load_failed e k msg w) = log (''Error loading tunnels from file: '' @ msg) w"
  by (simp add: load_failed_def)

lemma debugLog_Returned: "debugLog e k w = Returned w1 \<Longrightarrow> w1 = w"
  by (simp add: debugLog_def split: option.splits)

lemma debugLog_Raised: "debugLog e k w = Raised msg w1 \<Longrightarrow> w1 = w \<and> debugLog_error e k = Some msg"
  by (simp add: debugLog_def split: option.splits)

lemma registry_after_loadTunnels:
  "activeTunnels (after (loadTunnels e w)) =
     (case storage w of
        Array elems \<Rightarrow> fst (load_each e elems (activeTunnels w))
      | _ \<Rightarrow> activeTunnels w)"
  by (auto simp: loadTunnels_def log_def
        split: storage_file.splits prod.splits option.splits outcome.splits
        dest!: debugLog_Returned debugLog_Raised)

lemma loadTunnels_distinct:
  assumes "distinct (map fst (activeTunnels w))"
  shows "distinct (map fst (activeTunnels (after (loadTunnels e w))))"
  using assms
  by (simp add: registry_after_loadTunnels load_each_distinct split: storage_file.splits)

lemma stop_tunnel_distinct:
  assumes "distinct (map fst (activeTunnels w))"
  shows "distinct (map fst (activeTunnels (snd (stop_tunnel e sys name w))))"
proof -
  have named: "distinct (map fst (activeTunnels (snd (stop_named e sys n w))))" for n
    using assms
    by (simp add: stop_named_def Map_delete_distinct split: option.splits prod.splits)
  have all: "distinct (map fst (activeTunnels (snd (stop_all e sys w))))"
    using assms
    by (simp add: stop_all_def Let_def fold_delete_distinct split: prod.splits)
  from named all show ?thesis
    by (simp add: stop_tunnel_def split: option.splits)
qed

lemma list_tunnels_distinct:
  assumes "distinct (map fst (activeTunnels w))"
  shows "distinct (map fst (activeTunnels (after (snd (list_tunnels e sys w)))))"
proof (cases "loadTunnels e w")
  case (Returned w0)
  with loadTunnels_distinct[OF assms, of e] have "distinct (map fst (activeTunnels w0))" by simp
  with Returned show ?thesis
    by (simp add: list_tunnels_def absorb_distinct split: prod.splits)
next
  case (Raised msg w0)
  with loadTunnels_distinct[OF assms, of e] show ?thesis
    by (simp add: list_tunnels_def)
qed

section \<open>The registry: \<open>saveTunnels\<close> and \<open>loadTunnels\<close>\<close>

text \<open>\<open>loadTunnels\<close> never writes the storage file and runs no command.\<close>

lemma loadTunnels_frame:
  "storage (after (loadTunnels e w)) = storage w \<and> osst (after (loadTunnels e w)) = osst w"
  by (auto simp: loadTunnels_def log_def
        split: storage_file.splits prod.splits option.splits outcome.splits
        dest!: debugLog_Returned debugLog_Raised)

text \<open>
  \<open>loadTunnels\<close> raises only the exception of a debug line that could not be
  written; when every debug line can be written it returns.
\<close>

lemma loadTunnels_raises_only_debugLog:
  "loadTunnels e w = Raised msg w' \<Longrightarrow> \<exists>k. debugLog_error e k = Some msg"
  by (auto simp: loadTunnels_def load_failed_def
        split: storage_file.splits prod.splits option.splits outcome.splits
        dest!: debugLog_Raised)

lemma update_fresh: "map_of m k = None \<Longrightarrow> AList.update k v m = m @ [(k, v)]"
  by (induction m) (auto split: if_splits)

lemma tunnelsData_Inr:
  "tunnelsData e R = Inr ds \<Longrightarrow>
     ds = map (\<lambda>entry. \<lparr>j_name = fst entry, j_url = url (snd entry),
                        j_publicUrl = publicUrl (snd entry),
                        j_created = toISOString e (the (created (snd entry))),
                        j_pid = pid (snd entry), j_hostId = hostname e\<rparr>) R
     \<and> (\<forall>entry \<in> set R. created (snd entry) \<noteq> None)"
  by (induction e R arbitrary: ds rule: tunnelsData.induct)
     (auto split: option.splits sum.splits)

lemma tunnelsData_valid:
  "\<forall>entry \<in> set R. created (snd entry) \<noteq> None \<Longrightarrow> \<exists>ds. tunnelsData e R = Inr ds"
  by (induction e R rule: tunnelsData.induct) (auto split: option.splits sum.splits)

lemma load_each_fresh:
  "distinct (map fst m @ map j_name ds) \<Longrightarrow>
     load_each e (map Object ds) m = (m @ map (\<lambda>d. (j_name d, loaded e d)) ds, None)"
proof (induction ds arbitrary: m)
  case Nil
  then show ?case by simp
next
  case (Cons d ds)
  from Cons.prems have notin: "j_name d \<notin> fst ` set m" by auto
  then have fresh: "map_of m (j_name d) = None" by (simp add: map_of_eq_None_iff)
  have "distinct (map fst (m @ [(j_name d, loaded e d)]) @ map j_name ds)"
    using Cons.prems by auto
  from Cons.IH[OF this] fresh show ?case
    by (simp add: Map_has_def Map_set_def update_fresh)
qed

lemma saveTunnels_writes:
  "tunnelsData e (activeTunnels w) = Inr ds \<Longrightarrow> writeFileSync_error e = None \<Longrightarrow>
     storage (saveTunnels e w) = Array (map Object ds)"
  by (simp add: saveTunnels_def log_def)

lemma roundtrip_exact:
  assumes dist: "distinct (map fst (activeTunnels w))"
    and valid: "\<forall>entry \<in> set (activeTunnels w). created (snd entry) \<noteq> None"
    and wr: "writeFileSync_error e = None"
  shows "activeTunnels (after (loadTunnels e' ((saveTunnels e w)\<lparr>activeTunnels := []\<rparr>))) =
     map (\<lambda>entry. (fst entry,
            \<lparr>url = url (snd entry), publicUrl = publicUrl (snd entry),
             created = newDate e' (toISOString e (the (created (snd entry)))),
             pid = pid (snd entry), hostId = hostname e,
             isRemote = (hostname e \<noteq> hostname e'), isDetected = False,
             tunnel = LoadedHandle (fst entry) (url (snd entry)) (pid (snd entry))
                        (hostname e \<noteq> hostname e')\<rparr>)) (activeTunnels w)"
proof -
  from tunnelsData_valid[OF valid] obtain ds where ds: "tunnelsData e (activeTunnels w) = Inr ds"
    by blast
  from tunnelsData_Inr[OF ds] have dseq:
    "ds = map (\<lambda>entry. \<lparr>j_name = fst entry, j_url = url (snd entry),
                        j_publicUrl = publicUrl (snd entry),
                        j_created = toISOString e (the (created (snd entry))),
                        j_pid = pid (snd entry), j_hostId = hostname e\<rparr>) (activeTunnels w)"
    by simp
  then have names: "map j_name ds = map fst (activeTunnels w)" by (simp add: comp_def)
  have st: "storage ((saveTunnels e w)\<lparr>activeTunnels := []\<rparr>) = Array (map Object ds)"
    using saveTunnels_writes[OF ds wr] by simp
  have "distinct (map fst ([] :: registry) @ map j_name ds)" using dist names by simp
  from load_each_fresh[OF this, of e']
  have le: "load_each e' (map Object ds) [] = (map (\<lambda>d. (j_name d, loaded e' d)) ds, None)"
    by simp
  have "activeTunnels (after (loadTunnels e' ((saveTunnels e w)\<lparr>activeTunnels := []\<rparr>)))
          = map (\<lambda>d. (j_name d, loaded e' d)) ds"
    using st le by (simp add: registry_after_loadTunnels)
  then show ?thesis by (simp add: dseq loaded_def comp_def)
qed

text \<open>
  C3, as stated, fails. A storage file holds \<open>old\<close> with a creation date that is
  no date; \<open>loadTunnels\<close> builds the record with an invalid date, and \<open>web\<close> is
  set next to it. On this registry \<open>toISOString\<close> raises inside \<open>saveTunnels\<close>,
  which logs the exception and writes nothing; loading the file into an empty
  map gives \<open>old\<close> alone, and \<open>web\<close> is not reproduced.
\<close>

theorem save_then_load_invalid_date_counterexample:
  "activeTunnels undated_world
     = Map_set (activeTunnels (after (loadTunnels (sample_env ''thishost'')
                                         (empty_world\<lparr>storage := garbled_file\<rparr>))))
         ''web'' web_info
   \<and> map (\<lambda>entry. (fst entry, created (snd entry))) (activeTunnels undated_world)
       = [(''old'', None), (''web'', Some 0)]
   \<and> saveTunnels (sample_env ''thishost'') undated_world
       = undated_world\<lparr>logs := [''Error saving tunnels to file: Invalid time value'']\<rparr>
   \<and> map fst (activeTunnels (after (loadTunnels (sample_env ''thishost'')
         ((saveTunnels (sample_env ''thishost'') undated_world)\<lparr>activeTunnels := []\<rparr>))))
       = [''old'']
   \<and> Map_get (activeTunnels (after (loadTunnels (sample_env ''thishost'')
         ((saveTunnels (sample_env ''thishost'') undated_world)\<lparr>activeTunnels := []\<rparr>))))
         ''web'' = None"
proof -
  have built: "activeTunnels (after (loadTunnels (sample_env ''thishost'')
                                (empty_world\<lparr>storage := garbled_file\<rparr>)))
                 = [(''old'', undated_info)]"
    by (simp add: registry_after_loadTunnels empty_world_def garbled_file_def Map_has_def
          Map_set_def loaded_def undated_info_def sample_env_def iso_epoch_def iso_2023_def)
  have saved: "saveTunnels (sample_env ''thishost'') undated_world
                 = undated_world\<lparr>logs := [''Error saving tunnels to file: Invalid time value'']\<rparr>"
    by (simp add: saveTunnels_def log_def undated_world_def undated_info_def)
  have reload: "activeTunnels (after (loadTunnels (sample_env ''thishost'')
         ((saveTunnels (sample_env ''thishost'') undated_world)\<lparr>activeTunnels := []\<rparr>)))
                  = [(''old'', undated_info)]"
    unfolding saved
    by (simp add: registry_after_loadTunnels undated_world_def garbled_file_def Map_has_def
          Map_set_def loaded_def undated_info_def sample_env_def iso_epoch_def iso_2023_def)
  have c1: "activeTunnels undated_world
     = Map_set (activeTunnels (after (loadTunnels (sample_env ''thishost'')
                                         (empty_world\<lparr>storage := garbled_file\<rparr>))))
         ''web'' web_info"
    unfolding built by (simp add: undated_world_def Map_set_def)
  have c2: "map (\<lambda>entry. (fst entry, created (snd entry))) (activeTunnels undated_world)
       = [(''old'', None), (''web'', Some 0)]"
    by (simp add: undated_world_def undated_info_def web_info_def)
  have c4: "map fst (activeTunnels (after (loadTunnels (sample_env ''thishost'')
         ((saveTunnels (sample_env ''thishost'') undated_world)\<lparr>activeTunnels := []\<rparr>))))
       = [''old'']"
    unfolding reload by simp
  have c5: "Map_get (activeTunnels (after (loadTunnels (sample_env ''thishost'')
         ((saveTunnels (sample_env ''thishost'') undated_world)\<lparr>activeTunnels := []\<rparr>))))
         ''web'' = None"
    unfolding reload by (simp add: Map_get_def)
  show ?thesis
    by (intro conjI c1 c2 saved c4 c5)
qed

text \<open>
  C3, amended. For a registry whose every record holds a valid date: saving it
  and loading the file into an empty map gives back every record under its name
  and in its place, with the same address, public address, creation date and
  process id. The record carries the host name that was stamped into the file,
  and is remote exactly when that name differs from the host name of the
  machine that loads. The registry is a \<open>Map\<close> (each key once), \<open>writeFileSync\<close>
  succeeds, and the runtime reads back the date text it prints. The load may
  return or raise on its debug line: the registry it leaves is the same.
\<close>

theorem save_then_load_roundtrip:
  assumes dist: "distinct (map fst (activeTunnels w))"
    and valid: "\<forall>entry \<in> set (activeTunnels w). created (snd entry) \<noteq> None"
    and wr: "writeFileSync_error e = None"
    and dates: "\<forall>entry \<in> set (activeTunnels w). \<forall>t. created (snd entry) = Some t
                  \<longrightarrow> newDate e' (toISOString e t) = Some t"
    and w': "w' = after (loadTunnels e' ((saveTunnels e w)\<lparr>activeTunnels := []\<rparr>))"
  shows "map fst (activeTunnels w') = map fst (activeTunnels w)
    \<and> (\<forall>entry \<in> set (activeTunnels w).
         \<exists>i'. Map_get (activeTunnels w') (fst entry) = Some i'
           \<and> url i' = url (snd entry) \<and> publicUrl i' = publicUrl (snd entry)
           \<and> created i' = created (snd entry) \<and> pid i' = pid (snd entry)
           \<and> hostId i' = hostname e \<and> isRemote i' = (hostId i' \<noteq> hostname e'))"
proof -
  let ?f = "\<lambda>entry. (fst entry,
            \<lparr>url = url (snd entry), publicUrl = publicUrl (snd entry),
             created = newDate e' (toISOString e (the (created (snd entry)))),
             pid = pid (snd entry), hostId = hostname e,
             isRemote = (hostname e \<noteq> hostname e'), isDetected = False,
             tunnel = LoadedHandle (fst entry) (url (snd entry)) (pid (snd entry))
                        (hostname e \<noteq> hostname e')\<rparr>)"
  have eq: "activeTunnels w' = map ?f (activeTunnels w)"
    unfolding w' by (rule roundtrip_exact[OF dist valid wr])
  have keys: "map fst (activeTunnels w') = map fst (activeTunnels w)"
    by (simp add: eq comp_def)
  have each: "\<exists>i'. Map_get (activeTunnels w') (fst entry) = Some i'
           \<and> url i' = url (snd entry) \<and> publicUrl i' = publicUrl (snd entry)
           \<and> created i' = created (snd entry) \<and> pid i' = pid (snd entry)
           \<and> hostId i' = hostname e \<and> isRemote i' = (hostId i' \<noteq> hostname e')"
    if mem: "entry \<in> set (activeTunnels w)" for entry
  proof -
    from valid mem obtain t where t: "created (snd entry) = Some t" by auto
    with dates mem have nd: "newDate e' (toISOString e t) = Some t" by blast
    have "?f entry \<in> set (activeTunnels w')" using mem eq by simp
    moreover have "distinct (map fst (activeTunnels w'))" using keys dist by simp
    ultimately have "map_of (activeTunnels w') (fst entry) = Some (snd (?f entry))"
      by (intro map_of_is_SomeI) auto
    then show ?thesis using t nd by (simp add: Map_get_def)
  qed
  from keys each show ?thesis by blast
qed

text \<open>
  The sample registry, saved on \<open>thishost\<close> and loaded on \<open>laptop\<close>: the record
  \<open>api\<close> comes back with its fields, stamped \<open>thishost\<close> and marked remote.
\<close>

theorem save_then_load_roundtrip_witness:
  "distinct (map fst (activeTunnels sample_world))
   \<and> writeFileSync_error (sample_env ''thishost'') = None
   \<and> map fst (activeTunnels (after (loadTunnels (sample_env ''laptop'')
         ((saveTunnels (sample_env ''thishost'') sample_world)\<lparr>activeTunnels := []\<rparr>))))
       = [''web'', ''api'']
   \<and> (\<exists>i'. Map_get (activeTunnels (after (loadTunnels (sample_env ''laptop'')
         ((saveTunnels (sample_env ''thishost'') sample_world)\<lparr>activeTunnels := []\<rparr>)))) ''api''
         = Some i'
        \<and> url i' = ''http://localhost:8080''
        \<and> publicUrl i' = Some ''https://abc123.trycloudflare.com''
        \<and> created i' = Some 1700000000000 \<and> pid i' = None
        \<and> hostId i' = ''thishost'' \<and> isRemote i')"
proof -
  let ?e = "sample_env ''thishost''" and ?e' = "sample_env ''laptop''"
  have h1: "distinct (map fst (activeTunnels sample_world))"
    by (simp add: sample_world_def)
  have h2: "\<forall>entry \<in> set (activeTunnels sample_world). created (snd entry) \<noteq> None"
    by (simp add: sample_world_def web_info_def api_info_def)
  have h3: "writeFileSync_error ?e = None"
    by (simp add: sample_env_def)
  have h4: "\<forall>entry \<in> set (activeTunnels sample_world). \<forall>t. created (snd entry) = Some t
              \<longrightarrow> newDate ?e' (toISOString ?e t) = Some t"
    by (simp add: sample_world_def web_info_def api_info_def sample_env_def iso_epoch_def iso_2023_def)
  have mem: "(''api'', api_info) \<in> set (activeTunnels sample_world)"
    by (simp add: sample_world_def)
  from save_then_load_roundtrip[OF h1 h2 h3 h4 refl]
  have keys: "map fst (activeTunnels (after (loadTunnels ?e' ((saveTunnels ?e sample_world)\<lparr>activeTunnels := []\<rparr>))))
                = map fst (activeTunnels sample_world)"
    and each: "\<forall>entry \<in> set (activeTunnels sample_world).
         \<exists>i'. Map_get (activeTunnels (after (loadTunnels ?e' ((saveTunnels ?e sample_world)\<lparr>activeTunnels := []\<rparr>)))) (fst entry) = Some i'
           \<and> url i' = url (snd entry) \<and> publicUrl i' = publicUrl (snd entry)
           \<and> created i' = created (snd entry) \<and> pid i' = pid (snd entry)
           \<and> hostId i' = hostname ?e \<and> isRemote i' = (hostId i' \<noteq> hostname ?e')"
    by blast+
  from bspec[OF each mem] obtain i' where
    "Map_get (activeTunnels (after (loadTunnels ?e' ((saveTunnels ?e sample_world)\<lparr>activeTunnels := []\<rparr>)))) ''api'' = Some i'"
    "url i' = ''http://localhost:8080''"
    "publicUrl i' = Some ''https://abc123.trycloudflare.com''"
    "created i' = Some 1700000000000" "pid i' = None"
    "hostId i' = ''thishost''" "isRemote i'"
    by (auto simp: api_info_def sample_env_def)
  moreover have "map fst (activeTunnels sample_world) = [''web'', ''api'']"
    by (simp add: sample_world_def)
  ultimately show ?thesis using h1 h3 keys by auto
qed

text \<open>
  C5. What \<open>saveTunnels\<close> writes has one object per record, in order and under the
  record's name; each object's \<open>hostId\<close> is the host name of the saving machine;
  and the objects do not depend on the records' handles, host names or flags:
  changing those in any way gives the same file.
\<close>

theorem saveTunnels_persisted_form:
  assumes ds: "tunnelsData e (activeTunnels w) = Inr ds"
    and wr: "writeFileSync_error e = None"
  shows "storage (saveTunnels e w) = Array (map Object ds)
    \<and> map j_name ds = map fst (activeTunnels w)
    \<and> (\<forall>d \<in> set ds. j_hostId d = hostname e)
    \<and> (\<forall>h g r a. tunnelsData e
           (map (\<lambda>entry. (fst entry,
                   (snd entry)\<lparr>tunnel := h entry, hostId := g entry, isRemote := r entry,
                                isDetected := a entry\<rparr>)) (activeTunnels w)) = Inr ds)"
proof -
  from tunnelsData_Inr[OF ds] have dseq:
    "ds = map (\<lambda>entry. \<lparr>j_name = fst entry, j_url = url (snd entry),
                        j_publicUrl = publicUrl (snd entry),
                        j_created = toISOString e (the (created (snd entry))),
                        j_pid = pid (snd entry), j_hostId = hostname e\<rparr>) (activeTunnels w)"
    by simp
  have indep: "tunnelsData e
           (map (\<lambda>entry. (fst entry,
                   (snd entry)\<lparr>tunnel := h entry, hostId := g entry, isRemote := r entry,
                                isDetected := a entry\<rparr>)) R) = tunnelsData e R" for h g r a R
    by (induction e R rule: tunnelsData.induct) (auto split: option.splits sum.splits)
  show ?thesis
    using saveTunnels_writes[OF ds wr] dseq indep ds by (auto simp: comp_def)
qed

text \<open>
  The sample registry holds \<open>api\<close>, a remote record of \<open>otherhost\<close>; saved on
  \<open>thishost\<close>, its object is stamped \<open>thishost\<close>.
\<close>

theorem saveTunnels_persisted_form_witness:
  "tunnelsData (sample_env ''thishost'') (activeTunnels sample_world)
     = Inr [\<lparr>j_name = ''web'', j_url = ''http://localhost:3000'', j_publicUrl = None,
             j_created = iso_epoch, j_pid = Some 4242, j_hostId = ''thishost''\<rparr>,
            \<lparr>j_name = ''api'', j_url = ''http://localhost:8080'',
             j_publicUrl = Some ''https://abc123.trycloudflare.com'',
             j_created = iso_2023, j_pid = None, j_hostId = ''thishost''\<rparr>]
   \<and> hostId api_info = ''otherhost'' \<and> isRemote api_info
   \<and> storage (saveTunnels (sample_env ''thishost'') sample_world)
     = Array [Object \<lparr>j_name = ''web'', j_url = ''http://localhost:3000'', j_publicUrl = None,
             j_created = iso_epoch, j_pid = Some 4242, j_hostId = ''thishost''\<rparr>,
            Object \<lparr>j_name = ''api'', j_url = ''http://localhost:8080'',
             j_publicUrl = Some ''https://abc123.trycloudflare.com'',
             j_created = iso_2023, j_pid = None, j_hostId = ''thishost''\<rparr>]"
proof -
  have h1: "tunnelsData (sample_env ''thishost'') (activeTunnels sample_world)
     = Inr [\<lparr>j_name = ''web'', j_url = ''http://localhost:3000'', j_publicUrl = None,
             j_created = iso_epoch, j_pid = Some 4242, j_hostId = ''thishost''\<rparr>,
            \<lparr>j_name = ''api'', j_url = ''http://localhost:8080'',
             j_publicUrl = Some ''https://abc123.trycloudflare.com'',
             j_created = iso_2023, j_pid = None, j_hostId = ''thishost''\<rparr>]"
    by (simp add: sample_world_def web_info_def api_info_def sample_env_def)
  have h2: "writeFileSync_error (sample_env ''thishost'') = None"
    by (simp add: sample_env_def)
  from saveTunnels_persisted_form[OF h1 h2] h1 show ?thesis
    by (simp add: api_info_def)
qed

text \<open>
  C8, as stated, fails. The storage file cannot be parsed and the debug log
  cannot be written: the \<open>catch\<close> block logs the parse error, its \<open>debugLog\<close>
  raises, and \<open>loadTunnels\<close> raises that exception to its caller.
\<close>

theorem loadTunnels_raises_counterexample:
  "loadTunnels full_disk_env (sample_world\<lparr>storage := Malformed ''Unexpected end of JSON input''\<rparr>)
     = Raised ''ENOSPC: no space left on device, write''
         (sample_world\<lparr>storage := Malformed ''Unexpected end of JSON input'',
                       logs := [''Error loading tunnels from file: Unexpected end of JSON input'']\<rparr>)
   \<and> returns (loadTunnels full_disk_env
                 (sample_world\<lparr>storage := Malformed ''Unexpected end of JSON input''\<rparr>)) = False"
  by (simp add: loadTunnels_def load_failed_def debugLog_def log_def full_disk_env_def
        sample_env_def sample_world_def)

text \<open>
  C8, amended. \<open>loadTunnels\<close> raises to its caller only when a line of the debug
  log cannot be written, and then with that failure's message; every other
  exception of its body is caught. With no file it returns, having logged one
  line and changed nothing else. With a file that cannot be read or parsed, or
  whose value is not an array, it leaves the registry, the file and the process
  state as they were and logs the failure, whether it then returns or raises;
  it returns exactly when the debug line of its \<open>catch\<close> block can be written.
  (A file whose value is an array is not among these: the loop sets the records
  it reaches before an element stops it, as the statement of C4 says.)
\<close>

theorem loadTunnels_degrades:
  "(returns (loadTunnels e w)
      \<or> (\<exists>k m. debugLog_error e k = Some m
                \<and> loadTunnels e w = Raised m (after (loadTunnels e w))))
   \<and> (storage w = NoFile \<longrightarrow>
         loadTunnels e w
           = Returned (w\<lparr>logs := logs w @ [''No tunnel storage file found at ''
                                              @ tunnelStoragePath e]\<rparr>))
   \<and> (storage w = Unreadable msg \<or> storage w = Malformed msg \<or> storage w = NotArray msg \<longrightarrow>
         activeTunnels (after (loadTunnels e w)) = activeTunnels w
         \<and> storage (after (loadTunnels e w)) = storage w
         \<and> osst (after (loadTunnels e w)) = osst w
         \<and> logs (after (loadTunnels e w))
             = logs w @ [''Error loading tunnels from file: '' @ msg]
         \<and> returns (loadTunnels e w) = (debugLog_error e 0 = None))"
proof -
  have general: "returns (loadTunnels e w)
      \<or> (\<exists>k m. debugLog_error e k = Some m
                \<and> loadTunnels e w = Raised m (after (loadTunnels e w)))"
  proof (cases "loadTunnels e w")
    case (Returned w')
    then show ?thesis by simp
  next
    case (Raised m w')
    with loadTunnels_raises_only_debugLog[OF Raised] show ?thesis by auto
  qed
  have missing: "storage w = NoFile \<longrightarrow>
         loadTunnels e w
           = Returned (w\<lparr>logs := logs w @ [''No tunnel storage file found at ''
                                              @ tunnelStoragePath e]\<rparr>)"
    by (simp add: loadTunnels_def log_def)
  have bad: "storage w = Unreadable msg \<or> storage w = Malformed msg \<or> storage w = NotArray msg \<longrightarrow>
         activeTunnels (after (loadTunnels e w)) = activeTunnels w
         \<and> storage (after (loadTunnels e w)) = storage w
         \<and> osst (after (loadTunnels e w)) = osst w
         \<and> logs (after (loadTunnels e w))
             = logs w @ [''Error loading tunnels from file: '' @ msg]
         \<and> returns (loadTunnels e w) = (debugLog_error e 0 = None)"
    by (auto simp: loadTunnels_def load_failed_def debugLog_def log_def split: option.splits)
  from general missing bad show ?thesis by blast
qed

text \<open>
  A truncated file on a machine whose debug log can be written: \<open>loadTunnels\<close>
  returns, the registry keeps its two records and the error is logged.
\<close>

theorem loadTunnels_degrades_witness:
  "storage (sample_world\<lparr>storage := Malformed ''Unexpected end of JSON input''\<rparr>)
     = Malformed ''Unexpected end of JSON input''
   \<and> debugLog_error (sample_env ''thishost'') 0 = None
   \<and> returns (loadTunnels (sample_env ''thishost'')
        (sample_world\<lparr>storage := Malformed ''Unexpected end of JSON input''\<rparr>))
   \<and> activeTunnels (after (loadTunnels (sample_env ''thishost'')
        (sample_world\<lparr>storage := Malformed ''Unexpected end of JSON input''\<rparr>)))
     = [(''web'', web_info), (''api'', api_info)]
   \<and> logs (after (loadTunnels (sample_env ''thishost'')
        (sample_world\<lparr>storage := Malformed ''Unexpected end of JSON input''\<rparr>)))
     = [''Error loading tunnels from file: Unexpected end of JSON input'']"
proof -
  let ?w = "sample_world\<lparr>storage := Malformed ''Unexpected end of JSON input''\<rparr>"
  have h: "storage ?w = Unreadable ''Unexpected end of JSON input''
             \<or> storage ?w = Malformed ''Unexpected end of JSON input''
             \<or> storage ?w = NotArray ''Unexpected end of JSON input''"
    by simp
  have d: "debugLog_error (sample_env ''thishost'') 0 = None"
    by (simp add: sample_env_def)
  from loadTunnels_degrades[of "sample_env ''thishost''" ?w "''Unexpected end of JSON input''"] h d
  show ?thesis
    by (simp add: sample_world_def)
qed





section \<open>The bulk reaper: \<open>killTunnelProcesses\<close>\<close>

lemma issue_kill_sent:
  "issue_kill sys p sg s = (ok, s') \<Longrightarrow> sent s' = sent s @ [(p, sg, ok)]"
  by (auto simp: issue_kill_def Let_def)

lemma tick_sent [simp]: "sent (tick s) = sent s"
  by (simp add: tick_def)

lemma getCloudflaredDetails_sent:
  "getCloudflaredDetails sys s = (ds, s') \<Longrightarrow> sent s' = sent s"
  by (auto simp: getCloudflaredDetails_def)

lemma getCloudflaredDetails_rows:
  "getCloudflaredDetails sys s = (ds, s') \<Longrightarrow> ds = map parse_row (cloudflared_rows sys (clock s))"
  by (auto simp: getCloudflaredDetails_def)

lemma findPidsByPattern_sent:
  "findPidsByPattern sys pat s = (ps, s') \<Longrightarrow> sent s' = sent s"
  by (auto simp: findPidsByPattern_def Let_def)

lemma kill_each_sent:
  "kill_each sys sg fmt ps (r, s) = (r', s') \<Longrightarrow>
     \<exists>tr. sent s' = sent s @ tr \<and> map fst tr = ps \<and> (\<forall>k \<in> set tr. fst (snd k) = sg)"
proof (induction ps arbitrary: r s)
  case Nil
  then show ?case by simp
next
  case (Cons p ps)
  obtain ok s1 where k: "killPid sys p sg s = (ok, s1)" by (cases "killPid sys p sg s")
  with Cons.prems have "kill_each sys sg fmt ps (r @ [fmt p ok], s1) = (r', s')" by simp
  from Cons.IH[OF this] obtain tr where
    tr: "sent s' = sent s1 @ tr" "map fst tr = ps" "\<forall>k \<in> set tr. fst (snd k) = sg" by blast
  from k have "sent s1 = sent s @ [(p, sg, ok)]"
    by (simp add: killPid_def issue_kill_sent)
  with tr have ext: "sent s' = sent s @ ((p, sg, ok) # tr) \<and> map fst ((p, sg, ok) # tr) = p # ps
      \<and> (\<forall>k \<in> set ((p, sg, ok) # tr). fst (snd k) = sg)" by simp
  show ?case by (rule exI[of _ "(p, sg, ok) # tr"]) (rule ext)
qed

lemma binary_pass_sent:
  assumes "binary_pass sys procs (r, s) = (r', s')"
  shows "\<exists>tr. sent s' = sent s @ tr \<and> fst ` set tr \<subseteq> proc_pid ` set procs"
proof (cases "procs = []")
  case True
  with assms show ?thesis by (simp add: binary_pass_def)
next
  case False
  let ?r1 = "r @ [''Found '' @ string_of_nat (length procs) @ '' untun-managed cloudflared processes'']
                 @ map (\<lambda>proc. ''Will terminate: PID '' @ proc_pid proc @ '' (''
                          @ take 50 (command proc) @ ''...)'') procs"
  let ?fmt = "\<lambda>p killed. ''Kill TERM PID '' @ p @ '': '' @ outcome killed"
  obtain r2 s2 where k1: "kill_each sys SIGTERM ?fmt (map proc_pid procs) (?r1, s) = (r2, s2)"
    by (cases "kill_each sys SIGTERM ?fmt (map proc_pid procs) (?r1, s)")
  obtain rem s3 where g: "getCloudflaredDetails sys (tick s2) = (rem, s3)"
    by (cases "getCloudflaredDetails sys (tick s2)")
  from kill_each_sent[OF k1] obtain tr1 where
    tr1: "sent s2 = sent s @ tr1" "map fst tr1 = map proc_pid procs" by blast
  from getCloudflaredDetails_sent[OF g] have s3: "sent s3 = sent s2" by simp
  let ?remaining = "filter (\<lambda>pid. list_ex (\<lambda>p. proc_pid p = pid) rem) (map proc_pid procs)"
  have "set (map fst tr1) = set (map proc_pid procs)" using tr1(2) by simp
  then have sub1: "fst ` set tr1 \<subseteq> proc_pid ` set procs" by simp
  show ?thesis
  proof (cases "?remaining = []")
    case True
    with assms False k1 g have "s' = s3" by (simp add: binary_pass_def Let_def)
    with s3 tr1 sub1 show ?thesis by auto
  next
    case nonempty: False
    let ?fmt2 = "\<lambda>p killed. ''Kill KILL PID '' @ p @ '': '' @ outcome killed"
    from assms False k1 g nonempty have
      k2: "kill_each sys SIGKILL ?fmt2 ?remaining
             (r2 @ [string_of_nat (length ?remaining)
                      @ '' cloudflared processes still running after SIGTERM''], s3) = (r', s')"
      by (simp add: binary_pass_def Let_def)
    from kill_each_sent[OF k2] obtain tr2 where
      tr2: "sent s' = sent s3 @ tr2" "map fst tr2 = ?remaining" by blast
    have "set (map fst tr2) = set ?remaining" using tr2(2) by simp
    then have "set (map fst tr2) \<subseteq> set (map proc_pid procs)"
      by auto
    then have sub2: "fst ` set tr2 \<subseteq> proc_pid ` set procs" by simp
    from tr2(1) s3 tr1(1) have "sent s' = sent s @ (tr1 @ tr2)" by simp
    moreover from sub1 sub2 have "fst ` set (tr1 @ tr2) \<subseteq> proc_pid ` set procs" by auto
    ultimately show ?thesis by blast
  qed
qed

lemma findPidsByPattern_pids:
  "findPidsByPattern sys pat s = (ps, s') \<Longrightarrow>
     \<forall>p \<in> set ps. \<exists>row \<in> set (ps_aux sys (clock s)). str_includes row pat \<and> p = second_field row"
  by (auto simp: findPidsByPattern_def Let_def)

lemma launcher_pass_sent:
  assumes "launcher_pass sys (r, s) = (r', s')"
  shows "\<exists>tr. sent s' = sent s @ tr
    \<and> (\<forall>k \<in> set tr. \<exists>t. \<exists>row \<in> set (ps_aux sys t).
          str_includes row ''untun tunnel'' \<and> fst k = second_field row)"
proof -
  obtain ps s1 where f1: "findPidsByPattern sys ''untun tunnel'' s = (ps, s1)"
    by (cases "findPidsByPattern sys ''untun tunnel'' s")
  show ?thesis
  proof (cases "ps = []")
    case True
    with assms f1 have "s' = s1" by (simp add: launcher_pass_def)
    with findPidsByPattern_sent[OF f1] show ?thesis by simp
  next
    case False
    let ?fmt = "\<lambda>p killed. ''Kill TERM untun PID '' @ p @ '': '' @ outcome killed"
    let ?r1 = "r @ [''Found '' @ string_of_nat (length ps) @ '' untun tunnel processes'']"
    obtain r2 s2 where k1: "kill_each sys SIGTERM ?fmt ps (?r1, s1) = (r2, s2)"
      by (cases "kill_each sys SIGTERM ?fmt ps (?r1, s1)")
    obtain ps' s3 where f2: "findPidsByPattern sys ''untun tunnel'' (tick s2) = (ps', s3)"
      by (cases "findPidsByPattern sys ''untun tunnel'' (tick s2)")
    let ?fmt2 = "\<lambda>p killed. ''Kill KILL untun PID '' @ p @ '': '' @ outcome killed"
    from assms f1 False k1 f2 have k2: "kill_each sys SIGKILL ?fmt2 ps' (r2, s3) = (r', s')"
      by (simp add: launcher_pass_def)
    from kill_each_sent[OF k1] obtain tr1 where tr1: "sent s2 = sent s1 @ tr1" "map fst tr1 = ps"
      by blast
    from kill_each_sent[OF k2] obtain tr2 where tr2: "sent s' = sent s3 @ tr2" "map fst tr2 = ps'"
      by blast
    have eq: "sent s' = sent s @ (tr1 @ tr2)"
      using tr1(1) tr2(1) findPidsByPattern_sent[OF f1] findPidsByPattern_sent[OF f2] by simp
    have "\<exists>t. \<exists>row \<in> set (ps_aux sys t). str_includes row ''untun tunnel'' \<and> fst k = second_field row"
      if "k \<in> set (tr1 @ tr2)" for k
    proof -
      have "set ps = fst ` set tr1" "set ps' = fst ` set tr2"
        using tr1(2) tr2(2) by (metis set_map)+
      with that have "fst k \<in> set ps \<or> fst k \<in> set ps'" by auto
      then show ?thesis
        using findPidsByPattern_pids[OF f1] findPidsByPattern_pids[OF f2] by blast
    qed
    with eq show ?thesis by blast
  qed
qed

lemma final_check_sent':
  "sent (snd (final_check sys (r, s))) = sent s"
  by (simp add: final_check_def Let_def getCloudflaredDetails_def)

lemma final_check_sent:
  "final_check sys (r, s) = (r', s') \<Longrightarrow> sent s' = sent s"
  using final_check_sent'[of sys r s] by simp

text \<open>
  C6, as stated, fails. The one process of this table is enumerated by the
  reaper, and its command line holds \<open>--token\<close>; the filter on the tunnel binary's
  processes leaves it out, and the pass over the launcher's processes, which
  reads no token marker, sends it \<open>TERM\<close> and then \<open>KILL\<close>.
\<close>

theorem killTunnelProcesses_token_counterexample:
  "ps_aux (steady_os [token_row]) 0 = [token_row]
   \<and> proc_pid (parse_row token_row) = ''777''
   \<and> str_includes (command (parse_row token_row)) ''--token''
   \<and> untun_managed (parse_row token_row) = False
   \<and> sent (snd (killTunnelProcesses (steady_os [token_row]) idle))
       = [(''777'', SIGTERM, True), (''777'', SIGKILL, True)]"
  by code_simp

text \<open>
  C6, amended. Every \<open>kill\<close> the reaper issues belongs to one of two passes, in
  this order. In the pass over the tunnel binary (\<open>TERM\<close>, then \<open>KILL\<close> for those
  still listed) every target is the process id of a process of the first
  enumeration that passed the filter, so its command line has no \<open>--token\<close>. In
  the pass over the launcher every target is the second field of a row that
  holds \<open>untun tunnel\<close>; that pass applies no token filter. The final check issues
  nothing.
\<close>

theorem killTunnelProcesses_targets:
  assumes "killTunnelProcesses sys s = (transcript, s')"
  shows "\<exists>bin lau. sent s' = sent s @ bin @ lau
    \<and> (\<forall>k \<in> set bin. \<exists>proc \<in> set (map parse_row (cloudflared_rows sys (clock s))).
          proc_pid proc = fst k \<and> untun_managed proc
          \<and> \<not> str_includes (command proc) ''--token'')
    \<and> (\<forall>k \<in> set lau. \<exists>t. \<exists>row \<in> set (ps_aux sys t).
          str_includes row ''untun tunnel'' \<and> fst k = second_field row)"
proof -
  obtain ds s1 where g: "getCloudflaredDetails sys s = (ds, s1)"
    by (cases "getCloudflaredDetails sys s")
  obtain r2 s2 where b: "binary_pass sys (filter untun_managed ds) ([], s1) = (r2, s2)"
    by (cases "binary_pass sys (filter untun_managed ds) ([], s1)")
  obtain r3 s3 where l: "launcher_pass sys (r2, s2) = (r3, s3)"
    by (cases "launcher_pass sys (r2, s2)")
  obtain r4 s4 where f: "final_check sys (r3, s3) = (r4, s4)"
    by (cases "final_check sys (r3, s3)")
  from assms g b l f have s': "s' = s4" by (simp add: killTunnelProcesses_def)
  from binary_pass_sent[OF b] obtain bin where
    bin: "sent s2 = sent s1 @ bin" "fst ` set bin \<subseteq> proc_pid ` set (filter untun_managed ds)"
    by blast
  from launcher_pass_sent[OF l] obtain lau where
    lau: "sent s3 = sent s2 @ lau"
      "\<forall>k \<in> set lau. \<exists>t. \<exists>row \<in> set (ps_aux sys t).
          str_includes row ''untun tunnel'' \<and> fst k = second_field row"
    by blast
  have eq: "sent s' = sent s @ bin @ lau"
    using s' final_check_sent[OF f] lau(1) bin(1) getCloudflaredDetails_sent[OF g] by simp
  have "\<exists>proc \<in> set (map parse_row (cloudflared_rows sys (clock s))).
          proc_pid proc = fst k \<and> untun_managed proc
          \<and> \<not> str_includes (command proc) ''--token''" if "k \<in> set bin" for k
  proof -
    from that bin(2) obtain proc where "proc \<in> set ds" "untun_managed proc" "proc_pid proc = fst k"
      by auto
    then show ?thesis
      using getCloudflaredDetails_rows[OF g] by (auto simp: untun_managed_def)
  qed
  with eq lau(2) show ?thesis by blast
qed

text \<open>A tunnel binary and its launcher: four signals, two for each pass.\<close>

theorem killTunnelProcesses_targets_witness:
  "sent (snd (killTunnelProcesses (steady_os [binary_row, launcher_row]) idle))
     = [(''4243'', SIGTERM, True), (''4243'', SIGKILL, True),
        (''4242'', SIGTERM, True), (''4242'', SIGKILL, True)]
   \<and> (\<exists>bin lau.
         sent (snd (killTunnelProcesses (steady_os [binary_row, launcher_row]) idle))
           = sent idle @ bin @ lau
         \<and> (\<forall>k \<in> set bin. \<exists>proc \<in> set (map parse_row
                 (cloudflared_rows (steady_os [binary_row, launcher_row]) (clock idle))).
               proc_pid proc = fst k \<and> untun_managed proc
               \<and> \<not> str_includes (command proc) ''--token'')
         \<and> (\<forall>k \<in> set lau. \<exists>t. \<exists>row \<in> set (ps_aux (steady_os [binary_row, launcher_row]) t).
               str_includes row ''untun tunnel'' \<and> fst k = second_field row))"
proof -
  have run: "sent (snd (killTunnelProcesses (steady_os [binary_row, launcher_row]) idle))
     = [(''4243'', SIGTERM, True), (''4243'', SIGKILL, True),
        (''4242'', SIGTERM, True), (''4242'', SIGKILL, True)]"
    by code_simp
  have h: "killTunnelProcesses (steady_os [binary_row, launcher_row]) idle
             = (fst (killTunnelProcesses (steady_os [binary_row, launcher_row]) idle),
                snd (killTunnelProcesses (steady_os [binary_row, launcher_row]) idle))"
    by simp
  from killTunnelProcesses_targets[OF h] run show ?thesis by simp
qed

section \<open>The tree killer: \<open>closeSpecificTunnel\<close>\<close>












section \<open>\<open>stop_tunnel\<close>\<close>

text \<open>
  C2, as stated, fails for a remote record whose name is the empty string: the
  handler takes that name for an absent one, replies as for stopping every
  tunnel, and the reaper has signalled the machine's tunnel processes.
\<close>

theorem stop_tunnel_remote_empty_name_counterexample:
  "Map_get (activeTunnels unnamed_remote) [] = Some api_info
   \<and> isRemote api_info
   \<and> fst (stop_tunnel (sample_env ''thishost'') (steady_os [binary_row, launcher_row]) (Some [])
            unnamed_remote) = no_local_reply
   \<and> no_local_reply \<noteq> remote_reply [] (hostId api_info)
   \<and> sent (osst (snd (stop_tunnel (sample_env ''thishost'') (steady_os [binary_row, launcher_row])
            (Some []) unnamed_remote)))
       = [(''4243'', SIGTERM, True), (''4243'', SIGKILL, True),
          (''4242'', SIGTERM, True), (''4242'', SIGKILL, True)]"
  by code_simp

text \<open>
  C2, amended. For a remote record whose name is not the empty string,
  \<open>stop_tunnel\<close> with that name replies with the refusal that names the record's
  host and returns the world as it was: no command was run, no signal sent, and
  the registry and the file are unchanged.
\<close>

theorem stop_tunnel_remote_refused:
  assumes "name \<noteq> []"
    and "Map_get (activeTunnels w) name = Some info"
    and "isRemote info"
  shows "stop_tunnel e sys (Some name) w = (remote_reply name (hostId info), w)"
  using assms by (simp add: stop_tunnel_def stop_named_def)

text \<open>The remote record \<open>api\<close> of \<open>otherhost\<close>, on a machine with tunnel processes.\<close>

theorem stop_tunnel_remote_refused_witness:
  "''api'' \<noteq> [] \<and> Map_get (activeTunnels sample_world) ''api'' = Some api_info
   \<and> isRemote api_info
   \<and> stop_tunnel (sample_env ''thishost'') (steady_os [binary_row, launcher_row]) (Some ''api'')
        sample_world
      = (remote_reply ''api'' ''otherhost'', sample_world)"
proof -
  have h1: "''api'' \<noteq> []" by simp
  have h2: "Map_get (activeTunnels sample_world) ''api'' = Some api_info"
    by (simp add: Map_get_def sample_world_def)
  have h3: "isRemote api_info" by (simp add: api_info_def)
  have "hostId api_info = ''otherhost''" by (simp add: api_info_def)
  with stop_tunnel_remote_refused[OF h1 h2 h3] h2 h3 show ?thesis by simp
qed

text \<open>
  C9, as stated, fails for the empty name, which no record of the sample
  registry has: the handler stops every local tunnel, and the record \<open>web\<close> is
  gone from the registry.
\<close>

theorem stop_tunnel_absent_empty_name_counterexample:
  "Map_has (activeTunnels sample_world) [] = False
   \<and> map fst (activeTunnels sample_world) = [''web'', ''api'']
   \<and> fst (stop_tunnel (sample_env ''thishost'') (steady_os []) (Some []) sample_world)
       = ''Stopped 1 local tunnels. Remote tunnels were not affected.'' @ nl @ nl @ ''Details:''
           @ nl @ fst (killTunnelProcesses (steady_os []) idle)
   \<and> fst (stop_tunnel (sample_env ''thishost'') (steady_os []) (Some []) sample_world)
       \<noteq> not_found_reply []
   \<and> map fst (activeTunnels (snd (stop_tunnel (sample_env ''thishost'') (steady_os []) (Some [])
                                       sample_world))) = [''api'']"
  by code_simp

text \<open>
  C9, amended. For a name that is not the empty string and that the registry
  does not hold, \<open>stop_tunnel\<close> replies that no tunnel of that name was found and
  returns the world as it was; a second call gives the same reply and the same
  world.
\<close>

theorem stop_tunnel_absent:
  assumes "name \<noteq> []" and "\<not> Map_has (activeTunnels w) name"
  shows "stop_tunnel e sys (Some name) w = (not_found_reply name, w)
    \<and> stop_tunnel e sys (Some name) (snd (stop_tunnel e sys (Some name) w))
        = (not_found_reply name, w)"
  using assms by (simp add: stop_tunnel_def stop_named_def Map_has_def Map_get_def)

text \<open>The name \<open>db\<close>, which the sample registry does not hold.\<close>

theorem stop_tunnel_absent_witness:
  "''db'' \<noteq> [] \<and> Map_has (activeTunnels sample_world) ''db'' = False
   \<and> stop_tunnel (sample_env ''thishost'') (steady_os [binary_row, launcher_row]) (Some ''db'')
        sample_world = (not_found_reply ''db'', sample_world)
   \<and> stop_tunnel (sample_env ''thishost'') (steady_os [binary_row, launcher_row]) (Some ''db'')
        (snd (stop_tunnel (sample_env ''thishost'') (steady_os [binary_row, launcher_row])
                (Some ''db'') sample_world))
      = (not_found_reply ''db'', sample_world)"
proof -
  have h1: "''db'' \<noteq> []" by simp
  have h2: "\<not> Map_has (activeTunnels sample_world) ''db''"
    by (simp add: Map_has_def sample_world_def)
  from stop_tunnel_absent[OF h1 h2] h2 show ?thesis by simp
qed

text \<open>
  C10. With no name (or the empty one) and no local record in the registry,
  \<open>stop_tunnel\<close> replies with the fixed text, which holds nothing of the
  reaper's transcript, and the world it returns differs from the one it was
  given exactly by the reaper's run: the signals of \<open>killTunnelProcesses\<close> have
  been sent.
\<close>

theorem stop_all_kills_before_counting:
  assumes "name = None \<or> name = Some []"
    and "localTunnels (activeTunnels w) = []"
  shows "stop_tunnel e sys name w
           = (no_local_reply, w\<lparr>osst := snd (killTunnelProcesses sys (osst w))\<rparr>)"
  using assms by (auto simp: stop_tunnel_def stop_all_def split: prod.splits)

text \<open>
  A registry with one remote record, on a machine with a tunnel binary and its
  launcher: the reply is the fixed text and four signals have been sent.
\<close>

theorem stop_all_kills_before_counting_witness:
  "localTunnels (activeTunnels remote_only) = []
   \<and> fst (stop_tunnel (sample_env ''thishost'') (steady_os [binary_row, launcher_row]) None
            remote_only) = ''No local tunnels to stop. Remote tunnels are not affected.''
   \<and> activeTunnels (snd (stop_tunnel (sample_env ''thishost'') (steady_os [binary_row, launcher_row])
            None remote_only)) = activeTunnels remote_only
   \<and> sent (osst (snd (stop_tunnel (sample_env ''thishost'') (steady_os [binary_row, launcher_row])
            None remote_only)))
       = [(''4243'', SIGTERM, True), (''4243'', SIGKILL, True),
          (''4242'', SIGTERM, True), (''4242'', SIGKILL, True)]"
proof -
  have h1: "(None :: string option) = None \<or> (None :: string option) = Some []" by simp
  have h2: "localTunnels (activeTunnels remote_only) = []"
    by (simp add: localTunnels_def remote_only_def api_info_def)
  have run: "sent (snd (killTunnelProcesses (steady_os [binary_row, launcher_row]) idle))
     = [(''4243'', SIGTERM, True), (''4243'', SIGKILL, True),
        (''4242'', SIGTERM, True), (''4242'', SIGKILL, True)]"
    by code_simp
  have o: "osst remote_only = idle" by (simp add: remote_only_def)
  from stop_all_kills_before_counting[OF h1 h2, of "sample_env ''thishost''"
         "steady_os [binary_row, launcher_row]"] h2 run o
  show ?thesis by (simp add: no_local_reply_def)
qed

section \<open>\<open>list_tunnels\<close>\<close>

text \<open>
  C7 fails on the code. A first call finds a tunnel binary for port 4000 and
  stores it as \<open>auto-detected-1\<close>. At a second call that process is gone and
  one for port 5000 runs: its generated name is \<open>auto-detected-1\<close> again, and
  the record of the first call is overwritten.
\<close>

theorem list_tunnels_reuses_generated_name:
  "map (\<lambda>entry. (fst entry, url (snd entry)))
     (activeTunnels (after (snd (list_tunnels (sample_env ''thishost'') (steady_os [row_4000]) empty_world))))
     = [(''auto-detected-1'', ''http://localhost:4000'')]
   \<and> map (\<lambda>entry. (fst entry, url (snd entry)))
     (activeTunnels (after (snd (list_tunnels (sample_env ''thishost'') (steady_os [row_5000])
        (after (snd (list_tunnels (sample_env ''thishost'') (steady_os [row_4000]) empty_world)))))))
     = [(''auto-detected-1'', ''http://localhost:5000'')]"
  by code_simp

end
